theory Spec2Isabelle
  imports Complex_Main
begin

section \<open>JavaScript values\<close>

text \<open>
  The program is JavaScript: every rate is a JavaScript number, every provider payload a
  parsed JSON value. A number is a real, one of the two infinities, or NaN. Rounding,
  overflow to an infinity and the sign of zero are not modelled: a finite result is the
  exact real.
\<close>

datatype num = Fin real | PInf | NInf | NaN

datatype jsval =
    JUndefined
  | JNull
  | JBool bool
  | JNum num
  | JStr string
  | JArr "jsval list"
  | JObj "(string \<times> jsval) list"

datatype error =
    AxiosError "nat option" string
  | TypeError string
  | Error string

text \<open>\<open>error.message\<close> and \<open>error.response?.status\<close>.\<close>

fun message :: "error \<Rightarrow> string" where
  "message (AxiosError st m) = m"
| "message (TypeError m) = m"
| "message (Error m) = m"

fun response_status :: "error \<Rightarrow> nat option" where
  "response_status (AxiosError st m) = st"
| "response_status (TypeError m) = None"
| "response_status (Error m) = None"

subsection \<open>Arithmetic\<close>

definition signed_inf :: "real \<Rightarrow> num" where
  "signed_inf a = (if a = 0 then NaN else if 0 < a then PInf else NInf)"

fun num_neg :: "num \<Rightarrow> num" where
  "num_neg (Fin a) = Fin (- a)"
| "num_neg PInf = NInf"
| "num_neg NInf = PInf"
| "num_neg NaN = NaN"

fun num_add :: "num \<Rightarrow> num \<Rightarrow> num" where
  "num_add (Fin a) (Fin b) = Fin (a + b)"
| "num_add NaN y = NaN"
| "num_add x NaN = NaN"
| "num_add PInf NInf = NaN"
| "num_add NInf PInf = NaN"
| "num_add PInf y = PInf"
| "num_add NInf y = NInf"
| "num_add x PInf = PInf"
| "num_add x NInf = NInf"

definition num_sub :: "num \<Rightarrow> num \<Rightarrow> num" where
  "num_sub x y = num_add x (num_neg y)"

fun num_mul :: "num \<Rightarrow> num \<Rightarrow> num" where
  "num_mul (Fin a) (Fin b) = Fin (a * b)"
| "num_mul NaN y = NaN"
| "num_mul x NaN = NaN"
| "num_mul (Fin a) PInf = signed_inf a"
| "num_mul (Fin a) NInf = signed_inf (- a)"
| "num_mul PInf (Fin b) = signed_inf b"
| "num_mul NInf (Fin b) = signed_inf (- b)"
| "num_mul PInf PInf = PInf"
| "num_mul NInf NInf = PInf"
| "num_mul PInf NInf = NInf"
| "num_mul NInf PInf = NInf"

text \<open>Division: a zero divisor is \<open>+0\<close>, so \<open>x / 0\<close> is an infinity of the sign of \<open>x\<close>.\<close>

fun num_div :: "num \<Rightarrow> num \<Rightarrow> num" where
  "num_div (Fin a) (Fin b) = (if b = 0 then signed_inf a else Fin (a / b))"
| "num_div NaN y = NaN"
| "num_div x NaN = NaN"
| "num_div (Fin a) y = Fin 0"
| "num_div PInf (Fin b) = (if 0 \<le> b then PInf else NInf)"
| "num_div NInf (Fin b) = (if 0 \<le> b then NInf else PInf)"
| "num_div x y = NaN"

text \<open>\<open>x > 0\<close> and \<open>Math.max(x, y)\<close> on numbers; a comparison with NaN is false.\<close>

fun num_pos :: "num \<Rightarrow> bool" where
  "num_pos (Fin a) = (0 < a)"
| "num_pos PInf = True"
| "num_pos NInf = False"
| "num_pos NaN = False"

fun num_max :: "num \<Rightarrow> num \<Rightarrow> num" where
  "num_max NaN y = NaN"
| "num_max x NaN = NaN"
| "num_max PInf y = PInf"
| "num_max x PInf = PInf"
| "num_max NInf y = y"
| "num_max x NInf = x"
| "num_max (Fin a) (Fin b) = Fin (max a b)"

subsection \<open>Strings to numbers\<close>

definition is_digit :: "char \<Rightarrow> bool" where
  "is_digit c = ((48::nat) \<le> of_char c \<and> of_char c \<le> (57::nat))"

text \<open>
  White space and line ends, as \<open>parseFloat\<close> and \<open>Number\<close> skip them. A character here is a
  code unit below 256, so of the white space of JavaScript the tab, line feed, vertical
  tab, form feed, carriage return, space and no-break space (U+00A0) can occur.
\<close>

definition is_space :: "char \<Rightarrow> bool" where
  "is_space c =
     (c \<in> set [CHR '' '', CHR 0x09, CHR 0x0A, CHR 0x0B, CHR 0x0C, CHR 0x0D, CHR 0xA0])"

definition digit_val :: "char \<Rightarrow> nat" where
  "digit_val c = of_char c - 48"

definition digits_val :: "string \<Rightarrow> nat" where
  "digits_val ds = foldl (\<lambda>n c. 10 * n + digit_val c) 0 ds"

definition split_digits :: "string \<Rightarrow> string \<times> string" where
  "split_digits s = (takeWhile is_digit s, dropWhile is_digit s)"

text \<open>An optional sign: whether it is a minus, and the rest.\<close>

fun split_sign :: "string \<Rightarrow> bool \<times> string" where
  "split_sign [] = (False, [])"
| "split_sign (c # cs) =
     (if c = CHR ''-'' then (True, cs)
      else if c = CHR ''+'' then (False, cs)
      else (False, c # cs))"

text \<open>
  The exponent part \<open>e[+-]digits\<close> at the head of a string: its value and the rest; without
  a digit after the \<open>e\<close> there is no exponent part.
\<close>

definition split_exponent :: "string \<Rightarrow> int \<times> string" where
  "split_exponent s =
     (case s of
        [] \<Rightarrow> (0, s)
      | c # cs \<Rightarrow>
          if c = CHR ''e'' \<or> c = CHR ''E'' then
            (let (neg, r) = split_sign cs; (ds, r') = split_digits r
             in if ds = [] then (0, s)
                else ((if neg then - int (digits_val ds) else int (digits_val ds)), r'))
          else (0, s))"

definition scale10 :: "real \<Rightarrow> int \<Rightarrow> real" where
  "scale10 m ex = (if 0 \<le> ex then m * 10 ^ nat ex else m / 10 ^ nat (- ex))"

text \<open>
  A decimal literal (\<open>Infinity\<close>, or digits with an optional fraction and exponent) at the
  head of a string, after an optional sign: its value and what follows it, or nothing
  when the string does not start with one.
\<close>

definition split_decimal :: "string \<Rightarrow> (num \<times> string) option" where
  "split_decimal s =
     (let (neg, s1) = split_sign s in
      if take 8 s1 = ''Infinity'' then Some (if neg then NInf else PInf, drop 8 s1)
      else
        let (ip, r1) = split_digits s1;
            (fp, r2) = (case r1 of
                          [] \<Rightarrow> ([], r1)
                        | c # cs \<Rightarrow> if c = CHR ''.'' then split_digits cs else ([], r1))
        in if ip = [] \<and> fp = [] then None
           else
             let (ex, r3) = split_exponent r2;
                 m = scale10 (real (digits_val (ip @ fp)) / 10 ^ length fp) ex
             in Some (Fin (if neg then - m else m), r3))"

text \<open>\<open>parseFloat\<close> of a string: the longest decimal literal after leading white space.\<close>

definition parseFloat_str :: "string \<Rightarrow> num" where
  "parseFloat_str s =
     (case split_decimal (dropWhile is_space s) of
        None \<Rightarrow> NaN
      | Some (n, r) \<Rightarrow> n)"

text \<open>
  \<open>parseFloat\<close> of any value goes through its string: a number reads back as itself, an
  array as its first element (the comma after it ends the literal), everything else is
  not a literal.
\<close>

fun parseFloat :: "jsval \<Rightarrow> num" where
  "parseFloat (JNum n) = n"
| "parseFloat (JStr s) = parseFloat_str s"
| "parseFloat (JArr (x # xs)) = parseFloat x"
| "parseFloat v = NaN"

subsection \<open>Truthiness, equality, properties\<close>

fun truthy :: "jsval \<Rightarrow> bool" where
  "truthy JUndefined = False"
| "truthy JNull = False"
| "truthy (JBool b) = b"
| "truthy (JNum (Fin a)) = (a \<noteq> 0)"
| "truthy (JNum NaN) = False"
| "truthy (JNum n) = True"
| "truthy (JStr s) = (s \<noteq> [])"
| "truthy (JArr xs) = True"
| "truthy (JObj kvs) = True"

text \<open>\<open>typeof r === 'number' && !Number.isNaN(r)\<close>.\<close>

fun is_number :: "jsval \<Rightarrow> bool" where
  "is_number (JNum NaN) = False"
| "is_number (JNum n) = True"
| "is_number v = False"

text \<open>
  Reading a property \<open>v.k\<close>: a TypeError on \<open>undefined\<close> and \<open>null\<close>, the own property of an
  object, \<open>undefined\<close> when it has none and on every other value. An object is the list of
  its properties; of two entries with one name the first is the property. Inherited
  properties (\<open>constructor\<close>, \<open>toString\<close>, \<open>length\<close>) are not modelled: the program reads
  fixed field names and currency codes.
\<close>

fun get_prop :: "jsval \<Rightarrow> string \<Rightarrow> error + jsval" where
  "get_prop JUndefined k = Inl (TypeError (''Cannot read properties of undefined (reading '' @ k @ '')''))"
| "get_prop JNull k = Inl (TypeError (''Cannot read properties of null (reading '' @ k @ '')''))"
| "get_prop (JObj kvs) k = Inr (case map_of kvs k of None \<Rightarrow> JUndefined | Some v \<Rightarrow> v)"
| "get_prop v k = Inr JUndefined"

text \<open>
  \<open>Number(s)\<close> of a string, as the arithmetic operators coerce it: white space trimmed, the
  empty string is 0, a decimal literal that fills the whole string is its value. The
  hexadecimal, octal and binary literal forms are not modelled.
\<close>

definition number_str :: "string \<Rightarrow> num" where
  "number_str s =
     (let t = rev (dropWhile is_space (rev (dropWhile is_space s)))
      in if t = [] then Fin 0
         else (case split_decimal t of
                 None \<Rightarrow> NaN
               | Some (n, r) \<Rightarrow> if r = [] then n else NaN))"

text \<open>
  \<open>ToNumber\<close>: an array or object goes through its string, so a one-element array is its
  element (\<open>null\<close> and \<open>undefined\<close> print as the empty string) and a longer array has a
  comma in it.
\<close>

fun to_number :: "jsval \<Rightarrow> num" where
  "to_number JUndefined = NaN"
| "to_number JNull = Fin 0"
| "to_number (JBool b) = Fin (if b then 1 else 0)"
| "to_number (JNum n) = n"
| "to_number (JStr s) = number_str s"
| "to_number (JArr []) = Fin 0"
| "to_number (JArr [JUndefined]) = Fin 0"
| "to_number (JArr [JNull]) = Fin 0"
| "to_number (JArr [JBool b]) = NaN"
| "to_number (JArr [x]) = to_number x"
| "to_number (JArr xs) = NaN"
| "to_number (JObj kvs) = NaN"

text \<open>The operators \<open>/\<close>, \<open>*\<close> and \<open>-\<close> on values.\<close>

definition js_div :: "jsval \<Rightarrow> jsval \<Rightarrow> jsval" where
  "js_div x y = JNum (num_div (to_number x) (to_number y))"

definition js_mul :: "jsval \<Rightarrow> jsval \<Rightarrow> jsval" where
  "js_mul x y = JNum (num_mul (to_number x) (to_number y))"

definition js_sub :: "jsval \<Rightarrow> jsval \<Rightarrow> jsval" where
  "js_sub x y = JNum (num_sub (to_number x) (to_number y))"

section \<open>The world outside: network, clock, console, caches\<close>

text \<open>
  A request is what the program asks of the outside: the Frankfurter path (a date or
  \<open>latest\<close>) and its \<open>to\<close> parameter; the date, base, quote and amount of a Mastercard or
  Visa query; the market of an Amex query; the launch of a headless browser with a new
  page; the address that page is sent to.
\<close>

datatype request =
    FrankfurterGet string string
  | MastercardGet string string string num
  | VisaGet string string string num
  | AmexPost string
  | BrowserLaunch
  | PageGoto string

text \<open>
  The environment answers: \<open>http n r\<close> is the response body (or the error) to request \<open>r\<close>
  when \<open>n\<close> requests went before it, \<open>clock n\<close> is what the \<open>n\<close>-th reading of \<open>Date.now()\<close>
  returns, in milliseconds, and \<open>date_parse s\<close> is the day (counted from 1970-01-01) of
  \<open>new Date(s + 'T00:00:00Z')\<close>, a midnight as the appended time says, or nothing for an
  invalid date. \<open>number_string n\<close> is the string of a number in a template (rounding is not
  modelled, so the digits of a number are the runtime's to give). \<open>settle_order\<close> lists
  the places of the lookups awaited together, in the order in which they settle; places
  it leaves out settle after the others, in the order of the array.
\<close>

record env =
  http :: "nat \<Rightarrow> request \<Rightarrow> error + jsval"
  clock :: "nat \<Rightarrow> int"
  date_parse :: "string \<Rightarrow> int option"
  number_string :: "num \<Rightarrow> string"
  settle_order :: "nat list"

text \<open>A cache key is a string. An entry is \<open>{ value, timestamp }\<close>.\<close>

type_synonym cache_key = string

record cache_entry =
  val :: jsval
  timestamp :: int

text \<open>
  One line of the console, as \<open>logCircuit\<close> and the reference module print it: the circuit,
  its parameters and the logged response (the address of the request is left out). The
  other lines the modules print (Visa's \<open>api_hit\<close> and error lines, Amex's note of an
  unsupported pair) are not kept.
\<close>

type_synonym log_entry = "string \<times> jsval \<times> jsval"

record world =
  requests :: "request list"
  clock_reads :: nat
  console :: "log_entry list"
  mc_cache :: "cache_key \<rightharpoonup> cache_entry"
  visa_cache :: "cache_key \<rightharpoonup> cache_entry"
  amex_cache :: "cache_key \<rightharpoonup> cache_entry"
  visa_page :: bool
  amex_page :: bool

text \<open>An asynchronous function: from the world to a result or a thrown error, and the world after.\<close>

type_synonym 'a io = "world \<Rightarrow> (error + 'a) \<times> world"

definition io_return :: "'a \<Rightarrow> 'a io" where
  "io_return x = (\<lambda>w. (Inr x, w))"

definition io_throw :: "error \<Rightarrow> 'a io" where
  "io_throw e = (\<lambda>w. (Inl e, w))"

definition io_of :: "error + 'a \<Rightarrow> 'a io" where
  "io_of r = (\<lambda>w. (r, w))"

definition io_bind :: "'a io \<Rightarrow> ('a \<Rightarrow> 'b io) \<Rightarrow> 'b io" where
  "io_bind m f = (\<lambda>w. case m w of (Inl e, w') \<Rightarrow> (Inl e, w') | (Inr x, w') \<Rightarrow> f x w')"

definition io_catch :: "'a io \<Rightarrow> (error \<Rightarrow> 'a io) \<Rightarrow> 'a io" where
  "io_catch m h = (\<lambda>w. case m w of (Inl e, w') \<Rightarrow> h e w' | (Inr x, w') \<Rightarrow> (Inr x, w'))"

definition send :: "env \<Rightarrow> request \<Rightarrow> jsval io" where
  "send e r = (\<lambda>w. (http e (length (requests w)) r, w\<lparr>requests := requests w @ [r]\<rparr>))"

definition date_now :: "env \<Rightarrow> int io" where
  "date_now e = (\<lambda>w. (Inr (clock e (clock_reads w)), w\<lparr>clock_reads := Suc (clock_reads w)\<rparr>))"

definition console_log :: "log_entry \<Rightarrow> unit io" where
  "console_log l = (\<lambda>w. (Inr (), w\<lparr>console := console w @ [l]\<rparr>))"

text \<open>
  An asynchronous function keeps a part \<open>p\<close> of the world when that part is after it what
  it was before it, however it ends.
\<close>

definition keeps :: "(world \<Rightarrow> 'p) \<Rightarrow> 'a io \<Rightarrow> bool" where
  "keeps p m = (\<forall>w. p (snd (m w)) = p w)"

section \<open>The reference rate (frankfurter.js)\<close>

text \<open>\<open>response.data.rates[c]\<close>.\<close>

definition rate_of :: "jsval \<Rightarrow> string \<Rightarrow> error + jsval" where
  "rate_of data c = (case get_prop data ''rates'' of Inl e \<Rightarrow> Inl e | Inr r \<Rightarrow> get_prop r c)"

definition mid_params :: "string \<Rightarrow> string \<Rightarrow> string \<Rightarrow> jsval" where
  "mid_params date base quote =
     JObj [(''date'', JStr date), (''base'', JStr base), (''quote'', JStr quote)]"

text \<open>
  The three ways to read a rate off a response whose base is EUR: direct, inverted, or the
  cross rate of two legs.
\<close>

definition direct_rate :: "jsval \<Rightarrow> string \<Rightarrow> jsval io" where
  "direct_rate data quote = io_of (rate_of data quote)"

definition inverse_rate :: "jsval \<Rightarrow> string \<Rightarrow> jsval io" where
  "inverse_rate data base =
     io_bind (io_of (rate_of data base)) (\<lambda>r. io_return (js_div (JNum (Fin 1)) r))"

definition cross_rate :: "jsval \<Rightarrow> string \<Rightarrow> string \<Rightarrow> jsval io" where
  "cross_rate data base quote =
     io_bind (io_of (rate_of data base)) (\<lambda>eurToBase.
     io_bind (io_of (rate_of data quote)) (\<lambda>eurToQuote.
     io_return (js_div eurToQuote eurToBase)))"

definition getMidMarketRate :: "env \<Rightarrow> string \<Rightarrow> string \<Rightarrow> string \<Rightarrow> jsval io" where
  "getMidMarketRate e date base quote =
     io_catch
       (if base = quote then io_return (JNum (Fin 1))
        else if base = ''EUR'' then
          io_bind (send e (FrankfurterGet date quote)) (\<lambda>data.
          io_bind (console_log (''Mid'', mid_params date base quote, data)) (\<lambda>_.
          direct_rate data quote))
        else if quote = ''EUR'' then
          io_bind (send e (FrankfurterGet date base)) (\<lambda>data.
          io_bind (console_log (''Mid'', mid_params date base quote, data)) (\<lambda>_.
          inverse_rate data base))
        else
          io_bind (send e (FrankfurterGet date (base @ '','' @ quote))) (\<lambda>data.
          io_bind (cross_rate data base quote) (\<lambda>r.
          io_bind (console_log (''Mid'', mid_params date base quote, data)) (\<lambda>_.
          io_return r))))
       (\<lambda>error.
          if response_status error = Some 404 then
            io_bind (send e (FrankfurterGet ''latest''
                       (if base = ''EUR'' then quote else base @ '','' @ quote))) (\<lambda>data.
            io_bind (console_log (''Mid'', mid_params date base quote, data)) (\<lambda>_.
            if base = ''EUR'' then direct_rate data quote
            else if quote = ''EUR'' then inverse_rate data base
            else cross_rate data base quote))
          else io_throw (Error (''Failed to fetch mid-market rate: '' @ message error)))"

text \<open>
  Two responses carry the same data for a currency: both are the same failure, or both
  succeed and give the same reading of that currency's rate.
\<close>

definition same_rate :: "string \<Rightarrow> error + jsval \<Rightarrow> error + jsval \<Rightarrow> bool" where
  "same_rate c r r' =
     (case r of
        Inl x \<Rightarrow> r' = Inl x
      | Inr d \<Rightarrow> (case r' of Inl y \<Rightarrow> False | Inr d' \<Rightarrow> rate_of d c = rate_of d' c))"

text \<open>
  The provider answers from the same data whether it is asked for one currency or for two:
  on the dated path at the moment of the first request, and on \<open>latest\<close> at the moment of
  the second.
\<close>

definition same_provider_data :: "env \<Rightarrow> world \<Rightarrow> string \<Rightarrow> string \<Rightarrow> string \<Rightarrow> bool" where
  "same_provider_data e w d a b =
     (let n = length (requests w); both = a @ '','' @ b
      in same_rate a (http e n (FrankfurterGet d both)) (http e n (FrankfurterGet d a))
       \<and> same_rate b (http e n (FrankfurterGet d both)) (http e n (FrankfurterGet d b))
       \<and> same_rate a (http e (Suc n) (FrankfurterGet ''latest'' both))
            (http e (Suc n) (FrankfurterGet ''latest'' a))
       \<and> same_rate b (http e (Suc n) (FrankfurterGet ''latest'' both))
            (http e (Suc n) (FrankfurterGet ''latest'' b)))"

section \<open>Mastercard (mastercard-scraper.js)\<close>

definition CACHE_TTL :: int where
  "CACHE_TTL = 1000 * 60 * 60"

text \<open>
  \<open>getCacheKey(date, base, quote, amount)\<close> of the Mastercard and Visa modules: the
  template \<open>${date}|${base}|${quote}|${amount}\<close>.
\<close>

definition getCacheKey :: "env \<Rightarrow> string \<Rightarrow> string \<Rightarrow> string \<Rightarrow> num \<Rightarrow> cache_key" where
  "getCacheKey e date base quote amount =
     date @ ''|'' @ base @ ''|'' @ quote @ ''|'' @ number_string e amount"

definition rate_params :: "string \<Rightarrow> string \<Rightarrow> string \<Rightarrow> num \<Rightarrow> jsval" where
  "rate_params date base quote amount =
     JObj [(''date'', JStr date), (''base'', JStr base), (''quote'', JStr quote),
           (''amount'', JNum amount)]"

text \<open>
  What \<open>getMastercardRateViaAPI\<close> does with \<open>response.data.data\<close>: the converted amount over
  the amount when the first parses and the amount is positive, else the stated rate when
  it parses, else the error thrown.
\<close>

definition mastercard_normalize :: "jsval \<Rightarrow> num \<Rightarrow> error + jsval" where
  "mastercard_normalize data amount =
     (case get_prop data ''crdhldBillAmt'' of
        Inl x \<Rightarrow> Inl x
      | Inr crdhldBillAmt \<Rightarrow>
          if truthy crdhldBillAmt \<and> parseFloat crdhldBillAmt \<noteq> NaN \<and> num_pos amount
          then Inr (JNum (num_div (parseFloat crdhldBillAmt) amount))
          else (case get_prop data ''conversionRate'' of
                  Inl x \<Rightarrow> Inl x
                | Inr conversionRate \<Rightarrow>
                    if truthy conversionRate \<and> parseFloat conversionRate \<noteq> NaN
                    then Inr (JNum (parseFloat conversionRate))
                    else Inl (Error ''Could not parse API response'')))"

definition getMastercardRateViaAPI :: "env \<Rightarrow> string \<Rightarrow> string \<Rightarrow> string \<Rightarrow> num \<Rightarrow> jsval io" where
  "getMastercardRateViaAPI e date base quote amount =
     io_catch
       (io_bind (send e (MastercardGet date base quote amount)) (\<lambda>body.
        if truthy body then
          io_bind (io_of (get_prop body ''data'')) (\<lambda>data.
          if truthy data then
            io_bind (console_log (''Mastercard'', rate_params date base quote amount, body)) (\<lambda>_.
            io_of (mastercard_normalize data amount))
          else io_throw (Error ''Could not parse API response''))
        else io_throw (Error ''Could not parse API response'')))
       (\<lambda>error. io_return JNull)"

text \<open>
  \<open>getMastercardRate\<close>: a fresh entry of the cache is returned, a stale one deleted; then
  (\<open>getMastercardRate_miss\<close>, the rest of the function) the rate is fetched, and stored
  with the time when it is not \<open>null\<close>.
\<close>

definition getMastercardRate_miss :: "env \<Rightarrow> string \<Rightarrow> string \<Rightarrow> string \<Rightarrow> num \<Rightarrow> jsval io" where
  "getMastercardRate_miss e date base quote amount =
     io_bind (getMastercardRateViaAPI e date base quote amount) (\<lambda>apiRate.
     if apiRate \<noteq> JNull then
       io_bind (date_now e) (\<lambda>now. (\<lambda>w.
         (Inr apiRate,
          w\<lparr>mc_cache := (mc_cache w)(getCacheKey e date base quote amount \<mapsto> \<lparr>val = apiRate, timestamp = now\<rparr>)\<rparr>)))
     else io_throw (Error ''Failed to fetch Mastercard rate from API''))"

definition getMastercardRate :: "env \<Rightarrow> string \<Rightarrow> string \<Rightarrow> string \<Rightarrow> num \<Rightarrow> jsval io" where
  "getMastercardRate e date base quote amount =
     (\<lambda>w. case mc_cache w (getCacheKey e date base quote amount) of
            None \<Rightarrow> getMastercardRate_miss e date base quote amount w
          | Some entry \<Rightarrow>
              io_bind (date_now e) (\<lambda>now.
                if now - timestamp entry < CACHE_TTL then io_return (val entry)
                else (\<lambda>w'. getMastercardRate_miss e date base quote amount
                             (w'\<lparr>mc_cache := (mc_cache w')(getCacheKey e date base quote amount := None)\<rparr>))) w)"

section \<open>The daily series of a card network\<close>

text \<open>
  The calendar of \<open>Date\<close>: the year, month and day of a day number (\<open>getUTCFullYear\<close>,
  \<open>getUTCMonth() + 1\<close>, \<open>getUTCDate\<close>), in the proleptic Gregorian calendar.
\<close>

definition civil_from_days :: "int \<Rightarrow> int \<times> int \<times> int" where
  "civil_from_days z =
     (let z' = z + 719468;
          era = z' div 146097;
          doe = z' - era * 146097;
          yoe = (doe - doe div 1460 + doe div 36524 - doe div 146096) div 365;
          doy = doe - (365 * yoe + yoe div 4 - yoe div 100);
          mp = (5 * doy + 2) div 153;
          d = doy - (153 * mp + 2) div 5 + 1;
          m = (if mp < 10 then mp + 3 else mp - 9);
          y = yoe + era * 400
      in (if m \<le> 2 then y + 1 else y, m, d))"

fun digits_of :: "nat \<Rightarrow> string" where
  "digits_of n =
     (if n < 10 then [char_of (48 + n)] else digits_of (n div 10) @ [char_of (48 + n mod 10)])"

declare digits_of.simps [simp del]

definition string_of_int :: "int \<Rightarrow> string" where
  "string_of_int i = (if i < 0 then CHR ''-'' # digits_of (nat (- i)) else digits_of (nat i))"

text \<open>\<open>s.padStart(2, '0')\<close>.\<close>

definition padStart2 :: "string \<Rightarrow> string" where
  "padStart2 s = replicate (2 - length s) CHR ''0'' @ s"

definition fmt :: "int \<Rightarrow> string" where
  "fmt day =
     (let (y, m, d) = civil_from_days day
      in string_of_int y @ ''-'' @ padStart2 (string_of_int m) @ ''-'' @ padStart2 (string_of_int d))"

text \<open>The loop \<open>while (cursor <= end) { dates.push(fmt(cursor)); cursor.setUTCDate(+1) }\<close>.\<close>

function dates_between :: "int \<Rightarrow> int \<Rightarrow> string list" where
  "dates_between cursor end_day =
     (if cursor \<le> end_day then fmt cursor # dates_between (cursor + 1) end_day else [])"
  by pat_completeness auto
termination
  by (relation "measure (\<lambda>(cursor, end_day). nat (end_day + 1 - cursor))") auto

declare dates_between.simps [simp del]

text \<open>An invalid date compares false with everything, so the loop does not run.\<close>

definition date_labels :: "env \<Rightarrow> string \<Rightarrow> string \<Rightarrow> string list" where
  "date_labels e startDate endDate =
     (case date_parse e startDate of
        None \<Rightarrow> []
      | Some start_day \<Rightarrow>
          (case date_parse e endDate of
             None \<Rightarrow> []
           | Some end_day \<Rightarrow> dates_between start_day end_day))"

text \<open>
  The loop over the dates, which the three modules share word for word: the rate of the
  day when the lookup returns a number that is not NaN, else the last such rate, which
  starts as \<open>null\<close>.
\<close>

fun series_loop :: "(string \<Rightarrow> jsval io) \<Rightarrow> string list \<Rightarrow> jsval \<Rightarrow> world \<Rightarrow> jsval list \<times> world" where
  "series_loop getRate [] lastGood w = ([], w)"
| "series_loop getRate (d # ds) lastGood w =
     (case getRate d w of
        (Inr r, w') \<Rightarrow>
          if is_number r
          then (let (series, w'') = series_loop getRate ds r w' in (r # series, w''))
          else (let (series, w'') = series_loop getRate ds lastGood w' in (lastGood # series, w''))
      | (Inl x, w') \<Rightarrow>
          (let (series, w'') = series_loop getRate ds lastGood w' in (lastGood # series, w'')))"

text \<open>
  How the lookups of that loop settle, one after the other, and which of them count: those
  that return a number that is not NaN.
\<close>

fun lookups :: "(string \<Rightarrow> jsval io) \<Rightarrow> string list \<Rightarrow> world \<Rightarrow> (error + jsval) list" where
  "lookups getRate [] w = []"
| "lookups getRate (d # ds) w = (case getRate d w of (r, w') \<Rightarrow> r # lookups getRate ds w')"

definition succeeded :: "error + jsval \<Rightarrow> bool" where
  "succeeded r = (case r of Inl x \<Rightarrow> False | Inr v \<Rightarrow> is_number v)"

definition getMastercardSeries :: "env \<Rightarrow> string \<Rightarrow> string \<Rightarrow> string \<Rightarrow> string \<Rightarrow> world \<Rightarrow> jsval list \<times> world" where
  "getMastercardSeries e startDate endDate base quote =
     series_loop (\<lambda>d. getMastercardRate e d base quote (Fin 1))
       (date_labels e startDate endDate) JNull"

section \<open>Visa (visa-scraper.js)\<close>

definition VISA_URL :: string where
  "VISA_URL = ''https://www.visa.co.uk/support/consumer/travel-support/exchange-rate-calculator.html''"

text \<open>
  \<open>ensureBrowser\<close>: without a shared browser and page, the browser is launched and a page
  made, which is the shared page from then on, and the page is sent to the site.
\<close>

definition ensureBrowser_visa :: "env \<Rightarrow> unit io" where
  "ensureBrowser_visa e =
     (\<lambda>w. if visa_page w then (Inr (), w)
          else io_bind (send e BrowserLaunch)
                 (\<lambda>_. io_bind (\<lambda>w'. (Inr (), w'\<lparr>visa_page := True\<rparr>))
                 (\<lambda>_. io_bind (send e (PageGoto VISA_URL))
                 (\<lambda>_. io_return ()))) w)"

text \<open>What \<open>getVisaRateViaPlaywright\<close> does with the response body.\<close>

definition visa_normalize :: "jsval \<Rightarrow> num \<Rightarrow> error + jsval" where
  "visa_normalize data amount =
     (if truthy data then
        (case get_prop data ''originalValues'' of
           Inl x \<Rightarrow> Inl x
         | Inr originalValues \<Rightarrow>
             if truthy originalValues then
               (case get_prop originalValues ''toAmountWithAdditionalFee'' of
                  Inl x \<Rightarrow> Inl x
                | Inr fee \<Rightarrow>
                    if truthy fee \<and> parseFloat fee \<noteq> NaN
                    then Inr (JNum (if num_pos amount then num_div (parseFloat fee) amount
                                    else parseFloat fee))
                    else Inl (Error ''Could not parse Visa API response''))
             else Inl (Error ''Could not parse Visa API response''))
      else Inl (Error ''Could not parse Visa API response''))"

definition getVisaRateViaPlaywright :: "env \<Rightarrow> string \<Rightarrow> string \<Rightarrow> string \<Rightarrow> num \<Rightarrow> jsval io" where
  "getVisaRateViaPlaywright e date base quote amount =
     io_catch
       (io_bind (ensureBrowser_visa e) (\<lambda>_.
        io_bind (send e (VisaGet date base quote amount)) (\<lambda>data.
        io_bind (io_of (visa_normalize data amount)) (\<lambda>perUnit.
        io_bind (console_log (''Visa'', rate_params date base quote amount, data)) (\<lambda>_.
        io_return perUnit)))))
       (\<lambda>error. io_return JNull)"

text \<open>\<open>getVisaRate\<close>, and what it does past the cache.\<close>

definition getVisaRate_miss :: "env \<Rightarrow> string \<Rightarrow> string \<Rightarrow> string \<Rightarrow> num \<Rightarrow> jsval io" where
  "getVisaRate_miss e date base quote amount =
     io_bind (getVisaRateViaPlaywright e date base quote amount) (\<lambda>apiRate.
     if apiRate \<noteq> JNull then
       io_bind (date_now e) (\<lambda>now. (\<lambda>w.
         (Inr apiRate,
          w\<lparr>visa_cache := (visa_cache w)(getCacheKey e date base quote amount \<mapsto> \<lparr>val = apiRate, timestamp = now\<rparr>)\<rparr>)))
     else io_throw (Error ''Failed to fetch Visa rate from Playwright''))"

definition getVisaRate :: "env \<Rightarrow> string \<Rightarrow> string \<Rightarrow> string \<Rightarrow> num \<Rightarrow> jsval io" where
  "getVisaRate e date base quote amount =
     (\<lambda>w. case visa_cache w (getCacheKey e date base quote amount) of
            None \<Rightarrow> getVisaRate_miss e date base quote amount w
          | Some entry \<Rightarrow>
              io_bind (date_now e) (\<lambda>now.
                if now - timestamp entry < CACHE_TTL then io_return (val entry)
                else (\<lambda>w'. getVisaRate_miss e date base quote amount
                             (w'\<lparr>visa_cache := (visa_cache w')(getCacheKey e date base quote amount := None)\<rparr>))) w)"

definition getVisaSeries :: "env \<Rightarrow> string \<Rightarrow> string \<Rightarrow> string \<Rightarrow> string \<Rightarrow> world \<Rightarrow> jsval list \<times> world" where
  "getVisaSeries e startDate endDate base quote =
     series_loop (\<lambda>d. getVisaRate e d base quote (Fin 1))
       (date_labels e startDate endDate) JNull"

section \<open>American Express (amex-scraper.js)\<close>

definition AMEX_URL :: string where
  "AMEX_URL = ''https://www.americanexpress.com/en-us/foreign-exchange/fxrates/''"

definition currencyToCountry :: "(string \<times> string) list" where
  "currencyToCountry =
     [(''EUR'', ''IT''), (''GBP'', ''UK''), (''SEK'', ''SE''), (''DKK'', ''DK''),
      (''NOK'', ''NO''), (''PLN'', ''PL''), (''CZK'', ''CZ''), (''HUF'', ''HU''),
      (''USD'', ''ICC''), (''JPY'', ''ICC''), (''CHF'', ''ICC''), (''CAD'', ''ICC''),
      (''AUD'', ''ICC''), (''NZD'', ''ICC''), (''RON'', ''ICC''), (''BGN'', ''ICC''),
      (''HRK'', ''ICC''), (''RUB'', ''ICC''), (''TRY'', ''ICC''), (''BRL'', ''ICC''),
      (''CNY'', ''ICC''), (''HKD'', ''ICC''), (''IDR'', ''ICC''), (''ILS'', ''ICC''),
      (''INR'', ''ICC''), (''KRW'', ''ICC''), (''MXN'', ''ICC''), (''MYR'', ''ICC''),
      (''PHP'', ''ICC''), (''SGD'', ''ICC''), (''THB'', ''ICC''), (''ZAR'', ''ICC''),
      (''ISK'', ''ICC'')]"

text \<open>\<open>currencyToCountry[base] || 'ICC'\<close>.\<close>

definition market_of :: "string \<Rightarrow> string" where
  "market_of base = (case map_of currencyToCountry base of None \<Rightarrow> ''ICC'' | Some m \<Rightarrow> m)"

text \<open>The key of the Amex cache has no amount: \<open>${date}|${base}|${quote}\<close>.\<close>

definition getCacheKey_amex :: "string \<Rightarrow> string \<Rightarrow> string \<Rightarrow> cache_key" where
  "getCacheKey_amex date base quote = date @ ''|'' @ base @ ''|'' @ quote"

definition amex_params :: "string \<Rightarrow> string \<Rightarrow> string \<Rightarrow> string \<Rightarrow> num \<Rightarrow> jsval" where
  "amex_params date base quote market amount =
     JObj [(''date'', JStr date), (''base'', JStr base), (''quote'', JStr quote),
           (''market'', JStr market), (''amount'', JNum amount)]"

definition ensureBrowser_amex :: "env \<Rightarrow> unit io" where
  "ensureBrowser_amex e =
     (\<lambda>w. if amex_page w then (Inr (), w)
          else io_bind (send e BrowserLaunch)
                 (\<lambda>_. io_bind (\<lambda>w'. (Inr (), w'\<lparr>amex_page := True\<rparr>))
                 (\<lambda>_. io_bind (send e (PageGoto AMEX_URL))
                 (\<lambda>_. io_return ()))) w)"

text \<open>\<open>xs.find(p)\<close>, where the callback may throw; \<open>x => x.k === s\<close>; \<open>v.find(p)\<close> on any value.\<close>

fun js_find :: "(jsval \<Rightarrow> error + bool) \<Rightarrow> jsval list \<Rightarrow> error + jsval" where
  "js_find p [] = Inr JUndefined"
| "js_find p (x # xs) =
     (case p x of
        Inl err \<Rightarrow> Inl err
      | Inr found \<Rightarrow> if found then Inr x else js_find p xs)"

definition prop_is :: "string \<Rightarrow> string \<Rightarrow> jsval \<Rightarrow> error + bool" where
  "prop_is k s x = (case get_prop x k of Inl err \<Rightarrow> Inl err | Inr v \<Rightarrow> Inr (v = JStr s))"

fun call_find :: "jsval \<Rightarrow> (jsval \<Rightarrow> error + bool) \<Rightarrow> error + jsval" where
  "call_find (JArr xs) p = js_find p xs"
| "call_find v p = Inl (TypeError ''find is not a function'')"

text \<open>
  From the entry of a settlement currency to the rate: the variance of the currency
  \<open>code\<close> in its \<open>consumer\<close> list, applied to the reference rate, inverted or not.
\<close>

definition amex_apply_variance :: "jsval \<Rightarrow> string \<Rightarrow> jsval \<Rightarrow> bool \<Rightarrow> error + jsval" where
  "amex_apply_variance rateData code ecbRate needsInversion =
     (if truthy rateData then
        (case get_prop rateData ''consumer'' of
           Inl err \<Rightarrow> Inl err
         | Inr consumer \<Rightarrow>
             if truthy consumer then
               (case call_find consumer (prop_is ''submissionCurrencyCode'' code) of
                  Inl err \<Rightarrow> Inl err
                | Inr quoteData \<Rightarrow>
                    if truthy quoteData then
                      (case get_prop quoteData ''percentageVariance'' of
                         Inl err \<Rightarrow> Inl err
                       | Inr percentageVariance \<Rightarrow>
                           if truthy percentageVariance then
                             (let variance = parseFloat percentageVariance;
                                  multiplier = num_add (Fin 1) (num_div variance (Fin 100))
                              in Inr (JNum (if needsInversion
                                            then num_div (to_number ecbRate) multiplier
                                            else num_mul (to_number ecbRate) multiplier)))
                           else Inl (Error ''Could not parse Amex API response''))
                    else Inl (Error ''Could not parse Amex API response''))
             else Inl (Error ''Could not parse Amex API response''))
      else Inl (Error ''Could not parse Amex API response''))"

text \<open>
  The ICC market: the entry whose settlement currency is the base, else the one whose
  settlement currency is the quote (then inverted), else \<open>null\<close>: the pair is unsupported.
\<close>

definition amex_icc :: "jsval list \<Rightarrow> string \<Rightarrow> string \<Rightarrow> jsval \<Rightarrow> error + jsval" where
  "amex_icc data base quote ecbRate =
     (let normalizedBase = (if base = ''EUR'' then ''EURO'' else base);
          normalizedQuote = (if quote = ''EUR'' then ''EURO'' else quote)
      in case js_find (prop_is ''settlementCurrency'' normalizedBase) data of
           Inl err \<Rightarrow> Inl err
         | Inr byBase \<Rightarrow>
             if truthy byBase then amex_apply_variance byBase quote ecbRate False
             else (case js_find (prop_is ''settlementCurrency'' normalizedQuote) data of
                     Inl err \<Rightarrow> Inl err
                   | Inr byQuote \<Rightarrow>
                       if truthy byQuote then amex_apply_variance byQuote base ecbRate True
                       else Inr JNull))"

text \<open>What \<open>getAmexRateViaPlaywright\<close> does with the response body.\<close>

fun amex_normalize :: "jsval \<Rightarrow> string \<Rightarrow> string \<Rightarrow> string \<Rightarrow> jsval \<Rightarrow> error + jsval" where
  "amex_normalize (JArr (x # xs)) market base quote ecbRate =
     (if market = ''ICC'' then amex_icc (x # xs) base quote ecbRate
      else amex_apply_variance x quote ecbRate False)"
| "amex_normalize data market base quote ecbRate = Inl (Error ''Could not parse Amex API response'')"

definition getAmexRateViaPlaywright :: "env \<Rightarrow> string \<Rightarrow> string \<Rightarrow> string \<Rightarrow> num \<Rightarrow> jsval io" where
  "getAmexRateViaPlaywright e date base quote amount =
     io_catch
       (io_bind (ensureBrowser_amex e) (\<lambda>_.
        io_bind (getMidMarketRate e date base quote) (\<lambda>ecbRate.
        io_bind (send e (AmexPost (market_of base))) (\<lambda>data.
        io_bind (io_of (amex_normalize data (market_of base) base quote ecbRate)) (\<lambda>amexRate.
        if amexRate = JNull then io_return JNull
        else
          io_bind (console_log (''Amex'', amex_params date base quote (market_of base) amount, data))
            (\<lambda>_. io_return amexRate))))))
       (\<lambda>error. io_return JNull)"

text \<open>
  \<open>getAmexRate\<close>, and what it does past the cache: \<open>null\<close> is returned, not thrown, and
  not stored.
\<close>

definition getAmexRate_miss :: "env \<Rightarrow> string \<Rightarrow> string \<Rightarrow> string \<Rightarrow> num \<Rightarrow> jsval io" where
  "getAmexRate_miss e date base quote amount =
     io_bind (getAmexRateViaPlaywright e date base quote amount) (\<lambda>apiRate.
     if apiRate \<noteq> JNull then
       io_bind (date_now e) (\<lambda>now. (\<lambda>w.
         (Inr apiRate,
          w\<lparr>amex_cache := (amex_cache w)(getCacheKey_amex date base quote \<mapsto> \<lparr>val = apiRate, timestamp = now\<rparr>)\<rparr>)))
     else io_return JNull)"

definition getAmexRate :: "env \<Rightarrow> string \<Rightarrow> string \<Rightarrow> string \<Rightarrow> num \<Rightarrow> jsval io" where
  "getAmexRate e date base quote amount =
     (\<lambda>w. case amex_cache w (getCacheKey_amex date base quote) of
            None \<Rightarrow> getAmexRate_miss e date base quote amount w
          | Some entry \<Rightarrow>
              io_bind (date_now e) (\<lambda>now.
                if now - timestamp entry < CACHE_TTL then io_return (val entry)
                else (\<lambda>w'. getAmexRate_miss e date base quote amount
                             (w'\<lparr>amex_cache := (amex_cache w')(getCacheKey_amex date base quote := None)\<rparr>))) w)"

definition getAmexSeries :: "env \<Rightarrow> string \<Rightarrow> string \<Rightarrow> string \<Rightarrow> string \<Rightarrow> world \<Rightarrow> jsval list \<times> world" where
  "getAmexSeries e startDate endDate base quote =
     series_loop (\<lambda>d. getAmexRate e d base quote (Fin 1))
       (date_labels e startDate endDate) JNull"

section \<open>The request handlers (server.js)\<close>

text \<open>A response: the status and the JSON body handed to \<open>res.json\<close>.\<close>

datatype response = Response nat jsval

text \<open>The query of a request: each parameter is a string or is missing.\<close>

record query =
  q_date :: "string option"
  q_base :: "string option"
  q_quote :: "string option"
  q_amount :: "string option"

text \<open>\<open>!s\<close> on a parameter: missing or empty.\<close>

definition absent :: "string option \<Rightarrow> bool" where
  "absent p = (case p of None \<Rightarrow> True | Some s \<Rightarrow> s = [])"

text \<open>The regular expressions \<open>/^\d{4}-\d{2}-\d{2}$/\<close> and \<open>/^[A-Z]{3}$/\<close>.\<close>

definition date_format_ok :: "string \<Rightarrow> bool" where
  "date_format_ok s =
     (length s = 10 \<and> s ! 4 = CHR ''-'' \<and> s ! 7 = CHR ''-''
      \<and> list_all is_digit (take 4 s) \<and> list_all is_digit (take 2 (drop 5 s))
      \<and> list_all is_digit (drop 8 s))"

definition is_upper :: "char \<Rightarrow> bool" where
  "is_upper c = ((65::nat) \<le> of_char c \<and> of_char c \<le> (90::nat))"

definition currency_format_ok :: "string \<Rightarrow> bool" where
  "currency_format_ok s = (length s = 3 \<and> list_all is_upper s)"

text \<open>\<open>Math.max(0, parseFloat(req.query.amount || '1') || 1)\<close>.\<close>

definition parse_amount :: "string option \<Rightarrow> num" where
  "parse_amount p =
     (let a = parseFloat_str (if absent p then ''1'' else the p)
      in num_max (Fin 0) (if truthy (JNum a) then a else Fin 1))"

text \<open>
  \<open>toISOString().split('T')[0]\<close> of a day: the year has four digits, or a sign and six
  outside 0 to 9999.
\<close>

definition padStart_zeros :: "nat \<Rightarrow> string \<Rightarrow> string" where
  "padStart_zeros n s = replicate (n - length s) CHR ''0'' @ s"

definition iso_date :: "int \<Rightarrow> string" where
  "iso_date day =
     (let (y, m, d) = civil_from_days day;
          year = (if 0 \<le> y \<and> y \<le> 9999 then padStart_zeros 4 (string_of_int y)
                  else (if y < 0 then ''-'' else ''+'') @ padStart_zeros 6 (string_of_int (abs y)))
      in year @ ''-'' @ padStart2 (string_of_int m) @ ''-'' @ padStart2 (string_of_int d))"

text \<open>\<open>p.catch(() => null)\<close> on a settled lookup.\<close>

definition catch_null :: "error + jsval \<Rightarrow> jsval" where
  "catch_null r = (case r of Inl x \<Rightarrow> JNull | Inr v \<Rightarrow> v)"

text \<open>\<open>((a - b) / b) * 100\<close>.\<close>

definition delta_pct :: "jsval \<Rightarrow> jsval \<Rightarrow> jsval" where
  "delta_pct a b = js_mul (js_div (js_sub a b) b) (JNum (Fin 100))"

text \<open>
  The body of \<open>GET /api/rates\<close> once the four lookups of the day have returned and the
  four of the day before have returned or been caught.
\<close>

definition rates_body ::
  "string \<Rightarrow> string \<Rightarrow> string \<Rightarrow> num \<Rightarrow> jsval \<Rightarrow> jsval \<Rightarrow> jsval \<Rightarrow> jsval \<Rightarrow>
   jsval \<Rightarrow> jsval \<Rightarrow> jsval \<Rightarrow> jsval \<Rightarrow> jsval" where
  "rates_body date base quote amount mid mc visa amex midYesterday mcYesterday visaYesterday amexYesterday =
     (let amexUnavailable = (amex = JNull) in
      JObj
       [(''date'', JStr date),
        (''base'', JStr base),
        (''quote'', JStr quote),
        (''amount'', JNum amount),
        (''mid'', mid),
        (''mc'', mc),
        (''visa'', visa),
        (''amex'', if amexUnavailable then JNull else amex),
        (''amexUnavailable'', JBool amexUnavailable),
        (''converted'', JObj
           [(''mid'', js_mul mid (JNum amount)),
            (''mc'', js_mul mc (JNum amount)),
            (''visa'', js_mul visa (JNum amount)),
            (''amex'', if amexUnavailable then JNull else js_mul amex (JNum amount))]),
        (''mcDeltaPct'', delta_pct mc mid),
        (''visaDeltaPct'', delta_pct visa mid),
        (''amexDeltaPct'', if amexUnavailable then JNull else delta_pct amex mid),
        (''midDeltaPct'', if truthy midYesterday then delta_pct mid midYesterday else JNull),
        (''mcDayDeltaPct'', if truthy mcYesterday then delta_pct mc mcYesterday else JNull),
        (''visaDayDeltaPct'', if truthy visaYesterday then delta_pct visa visaYesterday else JNull),
        (''amexDayDeltaPct'',
           if amexUnavailable \<or> \<not> truthy amexYesterday then JNull
           else delta_pct amex amexYesterday),
        (''sources'', JObj
           [(''mid'', JStr ''ECB via Frankfurter''),
            (''mc'', JStr ''Mastercard''),
            (''visa'', JStr ''Visa''),
            (''amex'', JStr ''American Express'')])])"

definition failed_to_fetch_rates :: "error \<Rightarrow> response" where
  "failed_to_fetch_rates x =
     Response 500 (JObj [(''error'', JStr ''Failed to fetch rates''), (''details'', JStr (message x))])"

text \<open>
  \<open>await Promise.all([...])\<close> rejects with the error of the lookup that is first to throw,
  in the order in which the lookups settle.
\<close>

definition rejection :: "error + jsval \<Rightarrow> error option" where
  "rejection r = (case r of Inl x \<Rightarrow> Some x | Inr v \<Rightarrow> None)"

fun first_rejection :: "nat list \<Rightarrow> (error + jsval) list \<Rightarrow> error option" where
  "first_rejection [] rs = (case List.map_filter rejection rs of [] \<Rightarrow> None | x # xs \<Rightarrow> Some x)"
| "first_rejection (i # order) rs =
     (case (if i < length rs then rejection (rs ! i) else None) of
        Some x \<Rightarrow> Some x
      | None \<Rightarrow> first_rejection order rs)"

text \<open>The value of a lookup that returned (of one that threw no value is read).\<close>

definition fulfilled :: "error + jsval \<Rightarrow> jsval" where
  "fulfilled r = (case r of Inl x \<Rightarrow> JUndefined | Inr v \<Rightarrow> v)"

text \<open>
  \<open>await Promise.all([...])\<close> and what follows it, on the eight settled lookups: the first
  four are awaited as they are, so one of them that threw sends the handler to its
  \<open>catch\<close>; the last four carry \<open>.catch(() => null)\<close>.
\<close>

definition rates_join ::
  "nat list \<Rightarrow> string \<Rightarrow> string \<Rightarrow> string \<Rightarrow> num \<Rightarrow>
   error + jsval \<Rightarrow> error + jsval \<Rightarrow> error + jsval \<Rightarrow> error + jsval \<Rightarrow>
   error + jsval \<Rightarrow> error + jsval \<Rightarrow> error + jsval \<Rightarrow> error + jsval \<Rightarrow> response" where
  "rates_join order date base quote amount mid mc visa amex midY mcY visaY amexY =
     (case first_rejection order [mid, mc, visa, amex] of
        Some x \<Rightarrow> failed_to_fetch_rates x
      | None \<Rightarrow>
          Response 200
            (rates_body date base quote amount
               (fulfilled mid) (fulfilled mc) (fulfilled visa) (fulfilled amex)
               (catch_null midY) (catch_null mcY) (catch_null visaY) (catch_null amexY)))"

text \<open>
  The four lookups of one day, started in the order of the array. The model runs each to
  its end before the next, so how their awaits interleave is not modelled.
\<close>

definition lookups_of_day ::
  "env \<Rightarrow> string \<Rightarrow> string \<Rightarrow> string \<Rightarrow> num \<Rightarrow> world \<Rightarrow>
   ((error + jsval) \<times> (error + jsval) \<times> (error + jsval) \<times> (error + jsval)) \<times> world" where
  "lookups_of_day e date base quote amount w =
     (let (mid, w1) = getMidMarketRate e date base quote w;
          (mc, w2) = getMastercardRate e date base quote amount w1;
          (visa, w3) = getVisaRate e date base quote amount w2;
          (amex, w4) = getAmexRate e date base quote amount w3
      in ((mid, mc, visa, amex), w4))"

text \<open>\<open>GET /api/rates\<close>: the lookups of the day, then those of the day before.\<close>

definition api_rates :: "env \<Rightarrow> query \<Rightarrow> world \<Rightarrow> response \<times> world" where
  "api_rates e q w =
     (if absent (q_date q) \<or> absent (q_base q) \<or> absent (q_quote q) then
        (Response 400 (JObj [(''error'', JStr ''Missing required parameters: date, base, quote'')]), w)
      else
        (let date = the (q_date q); base = the (q_base q); quote = the (q_quote q);
             amount = parse_amount (q_amount q)
         in if \<not> date_format_ok date then
              (Response 400 (JObj [(''error'', JStr ''Invalid date format. Expected YYYY-MM-DD'')]), w)
            else if \<not> currency_format_ok base \<or> \<not> currency_format_ok quote then
              (Response 400
                 (JObj [(''error'', JStr ''Invalid currency format. Expected 3-letter codes (e.g., EUR, JPY)'')]), w)
            else
              (case date_parse e date of
                 None \<Rightarrow> (failed_to_fetch_rates (Error ''Invalid time value''), w)
               | Some day \<Rightarrow>
                   (let yesterdayStr = iso_date (day - 1);
                        ((mid, mc, visa, amex), w4) = lookups_of_day e date base quote amount w;
                        ((midY, mcY, visaY, amexY), w8) =
                           lookups_of_day e yesterdayStr base quote amount w4
                    in (rates_join (settle_order e) date base quote amount
                          mid mc visa amex midY mcY visaY amexY, w8)))))"

text \<open>
  The reference series of \<open>GET /api/history\<close>, from the labels and the map of the batched
  lookup: the first value the map has for a label, then the loop that carries the last
  value forward from it.
\<close>

fun firstKnown :: "string list \<Rightarrow> (string \<rightharpoonup> jsval) \<Rightarrow> jsval" where
  "firstKnown [] midMap = JNull"
| "firstKnown (d # ds) midMap = (case midMap d of Some v \<Rightarrow> v | None \<Rightarrow> firstKnown ds midMap)"

fun carry_forward :: "string list \<Rightarrow> (string \<rightharpoonup> jsval) \<Rightarrow> jsval \<Rightarrow> jsval list" where
  "carry_forward [] midMap last_known = []"
| "carry_forward (d # ds) midMap last_known =
     (case midMap d of
        Some v \<Rightarrow> v # carry_forward ds midMap v
      | None \<Rightarrow> last_known # carry_forward ds midMap last_known)"

definition midSeries :: "string list \<Rightarrow> (string \<rightharpoonup> jsval) \<Rightarrow> jsval list" where
  "midSeries labels midMap = carry_forward labels midMap (firstKnown labels midMap)"

section \<open>Worlds and environments to run the program in\<close>

text \<open>
  A date parser for the environments below: the day number of a string \<open>YYYY-MM-DD\<close> that
  names a day of the calendar, nothing for any other string.
\<close>

definition days_from_civil :: "int \<Rightarrow> int \<Rightarrow> int \<Rightarrow> int" where
  "days_from_civil y m d =
     (let y' = (if m \<le> 2 then y - 1 else y);
          era = y' div 400;
          yoe = y' - era * 400;
          doy = (153 * (if m > 2 then m - 3 else m + 9) + 2) div 5 + d - 1;
          doe = yoe * 365 + yoe div 4 - yoe div 100 + doy
      in era * 146097 + doe - 719468)"

definition iso_day :: "string \<Rightarrow> int option" where
  "iso_day s =
     (if date_format_ok s then
        (let y = int (digits_val (take 4 s));
             m = int (digits_val (take 2 (drop 5 s)));
             d = int (digits_val (drop 8 s));
             day = days_from_civil y m d
         in if 1 \<le> m \<and> m \<le> 12 \<and> 1 \<le> d \<and> civil_from_days day = (y, m, d)
            then Some day else None)
      else None)"

text \<open>
  The string of a number for the environments below, right on the whole numbers, the only
  amounts they are asked with.
\<close>

definition whole_number_string :: "num \<Rightarrow> string" where
  "whole_number_string n =
     (case n of
        Fin r \<Rightarrow> string_of_int \<lfloor>r\<rfloor>
      | PInf \<Rightarrow> ''Infinity''
      | NInf \<Rightarrow> ''-Infinity''
      | NaN \<Rightarrow> ''NaN'')"

text \<open>The world when the process starts: nothing sent, nothing cached, no page open.\<close>

definition initial_world :: world where
  "initial_world =
     \<lparr>requests = [], clock_reads = 0, console = [],
      mc_cache = Map.empty, visa_cache = Map.empty, amex_cache = Map.empty,
      visa_page = False, amex_page = False\<rparr>"

text \<open>A Frankfurter response body with the given rates.\<close>

definition frankfurter_body :: "(string \<times> real) list \<Rightarrow> jsval" where
  "frankfurter_body rs = JObj [(''rates'', JObj (map (\<lambda>(c, r). (c, JNum (Fin r))) rs))]"

text \<open>
  An environment in which Frankfurter knows the dollar and the yen, every other provider
  is out of reach, and the clock stands at zero.
\<close>

definition reference_only :: env where
  "reference_only =
     \<lparr>http = (\<lambda>n r. case r of
                FrankfurterGet p t \<Rightarrow> Inr (frankfurter_body [(''USD'', 1.08), (''JPY'', 162)])
              | _ \<Rightarrow> Inl (AxiosError None ''Network Error'')),
      clock = (\<lambda>n. 0),
      date_parse = iso_day,
      number_string = whole_number_string,
      settle_order = []\<rparr>"

text \<open>An environment in which every provider is out of reach and the clock stands at \<open>t\<close>.\<close>

definition offline_at :: "int \<Rightarrow> env" where
  "offline_at t =
     \<lparr>http = (\<lambda>n r. Inl (AxiosError None ''Network Error'')),
      clock = (\<lambda>n. t),
      date_parse = iso_day,
      number_string = whole_number_string,
      settle_order = []\<rparr>"

text \<open>
  An environment in which Mastercard answers every query with the converted amount
  ``107.50'' and the rate ``1.08'', and nothing else is in reach.
\<close>

definition mastercard_answers :: env where
  "mastercard_answers =
     \<lparr>http = (\<lambda>n r. case r of
                MastercardGet d b q a \<Rightarrow>
                  Inr (JObj [(''data'', JObj [(''crdhldBillAmt'', JStr ''107.50''),
                                               (''conversionRate'', JStr ''1.08'')])])
              | _ \<Rightarrow> Inl (AxiosError None ''Network Error'')),
      clock = (\<lambda>n. 0),
      date_parse = iso_day,
      number_string = whole_number_string,
      settle_order = []\<rparr>"

text \<open>
  An environment in which Frankfurter knows the dollar, the yen and the franc, the browser
  opens its page, and Amex answers every market as given: with a response body, or with
  the error of a request that timed out.
\<close>

definition amex_answers :: "error + jsval \<Rightarrow> env" where
  "amex_answers answer =
     \<lparr>http = (\<lambda>n r. case r of
                FrankfurterGet p t \<Rightarrow>
                  Inr (frankfurter_body [(''USD'', 1.08), (''JPY'', 162), (''CHF'', 0.96)])
              | BrowserLaunch \<Rightarrow> Inr JUndefined
              | PageGoto u \<Rightarrow> Inr JUndefined
              | AmexPost m \<Rightarrow> answer
              | _ \<Rightarrow> Inl (AxiosError None ''Network Error'')),
      clock = (\<lambda>n. 0),
      date_parse = iso_day,
      number_string = whole_number_string,
      settle_order = []\<rparr>"

definition amex_timeout :: "error + jsval" where
  "amex_timeout = Inl (Error ''page.waitForResponse: Timeout 15000ms exceeded.'')"

text \<open>
  The two entries of the ICC market, the euro and the dollar, each with the variance of
  the yen; in the dollar entry it is the given value.
\<close>

definition icc_entries :: "jsval \<Rightarrow> jsval" where
  "icc_entries usd_jpy_variance =
     JArr [JObj [(''settlementCurrency'', JStr ''EURO''),
                 (''consumer'', JArr [JObj [(''submissionCurrencyCode'', JStr ''JPY''),
                                           (''percentageVariance'', JStr ''2.5'')]])],
           JObj [(''settlementCurrency'', JStr ''USD''),
                 (''consumer'', JArr [JObj [(''submissionCurrencyCode'', JStr ''JPY''),
                                           (''percentageVariance'', usd_jpy_variance)]])]]"

text \<open>
  An environment in which Frankfurter knows the dollar, the yen and the franc, the browser
  opens its pages, and Mastercard, Visa and Amex answer every query as given, each with a
  response body or with an error; the clock is given too.
\<close>

definition providers :: "error + jsval \<Rightarrow> error + jsval \<Rightarrow> error + jsval \<Rightarrow> (nat \<Rightarrow> int) \<Rightarrow> env" where
  "providers mastercard visa amex time =
     \<lparr>http = (\<lambda>n r. case r of
                FrankfurterGet p t \<Rightarrow>
                  Inr (frankfurter_body [(''USD'', 1.08), (''JPY'', 162), (''CHF'', 0.96)])
              | MastercardGet d b q a \<Rightarrow> mastercard
              | VisaGet d b q a \<Rightarrow> visa
              | AmexPost m \<Rightarrow> amex
              | BrowserLaunch \<Rightarrow> Inr JUndefined
              | PageGoto u \<Rightarrow> Inr JUndefined),
      clock = time,
      date_parse = iso_day,
      number_string = whole_number_string,
      settle_order = []\<rparr>"

text \<open>Response bodies of Mastercard and of Visa with the given fields.\<close>

definition mastercard_body :: "jsval \<Rightarrow> jsval \<Rightarrow> jsval" where
  "mastercard_body crdhldBillAmt conversionRate =
     JObj [(''data'', JObj [(''crdhldBillAmt'', crdhldBillAmt), (''conversionRate'', conversionRate)])]"

definition visa_body :: "jsval \<Rightarrow> jsval" where
  "visa_body toAmountWithAdditionalFee =
     JObj [(''originalValues'', JObj [(''toAmountWithAdditionalFee'', toAmountWithAdditionalFee)])]"

text \<open>
  A clock that reads 1000 at first, 59 minutes later at its second reading, and 61
  minutes later than at first from its third reading on.
\<close>

definition clock_59_61 :: "nat \<Rightarrow> int" where
  "clock_59_61 n =
     (if n = 0 then 1000 else if n = 1 then 1000 + 59 * 60 * 1000 else 1000 + 61 * 60 * 1000)"

text \<open>
  An environment in which every provider answers: Mastercard with the converted amount
  107.50 and the rate 1.08, Visa with 1.09, Amex with a variance of 2.5 percent on the
  yen; and the worlds after the first lookup of each provider in it.
\<close>

definition answering :: env where
  "answering =
     providers (Inr (mastercard_body (JStr ''107.50'') (JStr ''1.08'')))
       (Inr (visa_body (JStr ''1.09''))) (Inr (icc_entries (JStr ''2.5''))) clock_59_61"

definition mc_stored :: world where
  "mc_stored = snd (getMastercardRate answering ''2024-03-01'' ''USD'' ''JPY'' (Fin 1) initial_world)"

definition visa_stored :: world where
  "visa_stored = snd (getVisaRate answering ''2024-03-01'' ''USD'' ''JPY'' (Fin 1) initial_world)"

definition amex_stored :: world where
  "amex_stored = snd (getAmexRate answering ''2024-03-01'' ''USD'' ''JPY'' (Fin 1) initial_world)"

text \<open>
  An environment in which Mastercard, Visa and Frankfurter answer for 2024-03-03 and for
  no other day: Mastercard and Visa with the rate 0.90, Frankfurter with its rates. The
  browser opens its pages and Amex answers with a variance of 2.5 percent on the yen.
\<close>

definition third_day_only :: env where
  "third_day_only =
     \<lparr>http = (\<lambda>n r. case r of
                FrankfurterGet p t \<Rightarrow>
                  if p = ''2024-03-03''
                  then Inr (frankfurter_body [(''USD'', 1.08), (''JPY'', 162), (''CHF'', 0.96)])
                  else Inl (AxiosError (Some 500) ''Request failed with status code 500'')
              | MastercardGet d b q a \<Rightarrow>
                  if d = ''2024-03-03''
                  then Inr (JObj [(''data'', JObj [(''conversionRate'', JStr ''0.90'')])])
                  else Inl (AxiosError (Some 400) ''Request failed with status code 400'')
              | VisaGet d b q a \<Rightarrow>
                  if d = ''2024-03-03''
                  then Inr (visa_body (JStr ''0.90''))
                  else Inl (Error ''page.waitForResponse: Timeout 25000ms exceeded.'')
              | AmexPost m \<Rightarrow> Inr (icc_entries (JStr ''2.5''))
              | BrowserLaunch \<Rightarrow> Inr JUndefined
              | PageGoto u \<Rightarrow> Inr JUndefined),
      clock = (\<lambda>n. 0),
      date_parse = iso_day,
      number_string = whole_number_string,
      settle_order = []\<rparr>"

text \<open>
  An environment in which Mastercard answers every query with a server error while Visa
  and Amex answer as in \<open>answering\<close>, and the query \<open>?date=2024-03-01&base=USD&quote=JPY\<close>.
\<close>

definition mastercard_down :: env where
  "mastercard_down =
     providers (Inl (AxiosError (Some 500) ''Request failed with status code 500''))
       (Inr (visa_body (JStr ''1.09''))) (Inr (icc_entries (JStr ''2.5''))) (\<lambda>n. 0)"

definition dollar_yen_query :: query where
  "dollar_yen_query =
     \<lparr>q_date = Some ''2024-03-01'', q_base = Some ''USD'', q_quote = Some ''JPY'',
      q_amount = None\<rparr>"

section \<open>Properties\<close>

lemmas io_defs =
  io_return_def io_throw_def io_of_def io_bind_def io_catch_def send_def date_now_def console_log_def

subsection \<open>The reference rate\<close>

lemma get_prop_Inl: "get_prop v k = Inl x \<Longrightarrow> (v = JUndefined \<or> v = JNull) \<and> response_status x = None"
  by (cases v) auto

lemma get_prop_Inl_any: "get_prop v k = Inl x \<Longrightarrow> \<exists>y. get_prop v k' = Inl y"
  by (cases v) auto

lemma rate_of_Inl_status: "rate_of d c = Inl x \<Longrightarrow> response_status x = None"
  by (auto simp add: rate_of_def split: sum.splits dest: get_prop_Inl)

lemma rate_of_Inl_any: "rate_of d c = Inl x \<Longrightarrow> \<exists>y. rate_of d c' = Inl y"
  by (auto simp add: rate_of_def split: sum.splits dest: get_prop_Inl_any)

lemma getMidMarketRate_same: "getMidMarketRate e date c c w = (Inr (JNum (Fin 1)), w)"
  by (simp add: getMidMarketRate_def io_catch_def io_return_def)

text \<open>
  C6. For every date and every currency, the reference rate of the currency against
  itself is exactly 1.0, and the world after the call is the world before it: no request
  was sent.
\<close>

theorem same_currency_rate_is_one:
  "getMidMarketRate e date c c w = (Inr (JNum (Fin 1)), w)"
  by (simp add: getMidMarketRate_same)

text \<open>
  C5. Triangulation: for currencies \<open>a\<close> and \<open>b\<close> other than EUR, when the provider answers
  from the same data whichever currencies it is asked for, and the two lookups against
  EUR return \<open>x\<close> (for \<open>b\<close>) and \<open>y\<close> (for \<open>a\<close>), the lookup of \<open>a\<close> against \<open>b\<close> returns
  \<open>x / y\<close>. For \<open>a = b\<close> the division has to be one of a finite rate other than zero by
  itself. The date may be one the provider does not have (the answer then comes from
  \<open>latest\<close> on all three lookups).
\<close>

theorem triangulation_consistency:
  assumes "a \<noteq> ''EUR''" and "b \<noteq> ''EUR''"
    and "same_provider_data e w d a b"
    and "fst (getMidMarketRate e d ''EUR'' b w) = Inr x"
    and "fst (getMidMarketRate e d ''EUR'' a w) = Inr y"
    and "a \<noteq> b \<or> (\<exists>r. y = JNum (Fin r) \<and> r \<noteq> 0)"
  shows "fst (getMidMarketRate e d a b w) = Inr (js_div x y)"
proof (cases "a = b")
  case True
  with assms(4,5,6) show ?thesis
    by (auto simp add: getMidMarketRate_def io_catch_def io_return_def js_div_def)
next
  case False
  show ?thesis
    using False assms(1,2,3,4,5) rate_of_Inl_status
      rate_of_Inl_any[of _ a _ b] rate_of_Inl_any[of _ b _ a]
    by (auto simp add: getMidMarketRate_def io_defs direct_rate_def cross_rate_def
          same_provider_data_def same_rate_def Let_def
        split: sum.splits if_splits prod.splits)
qed

theorem triangulation_consistency_witness:
  "same_provider_data reference_only initial_world ''2024-03-01'' ''USD'' ''JPY''
   \<and> fst (getMidMarketRate reference_only ''2024-03-01'' ''EUR'' ''JPY'' initial_world) = Inr (JNum (Fin 162))
   \<and> fst (getMidMarketRate reference_only ''2024-03-01'' ''EUR'' ''USD'' initial_world) = Inr (JNum (Fin 1.08))
   \<and> fst (getMidMarketRate reference_only ''2024-03-01'' ''USD'' ''JPY'' initial_world) = Inr (JNum (Fin 150))"
proof -
  have h3: "same_provider_data reference_only initial_world ''2024-03-01'' ''USD'' ''JPY''"
    by (simp add: same_provider_data_def same_rate_def reference_only_def Let_def)
  have h4: "fst (getMidMarketRate reference_only ''2024-03-01'' ''EUR'' ''JPY'' initial_world) = Inr (JNum (Fin 162))"
    by (simp add: getMidMarketRate_def io_defs direct_rate_def rate_of_def reference_only_def
          frankfurter_body_def)
  have h5: "fst (getMidMarketRate reference_only ''2024-03-01'' ''EUR'' ''USD'' initial_world) = Inr (JNum (Fin 1.08))"
    by (simp add: getMidMarketRate_def io_defs direct_rate_def rate_of_def reference_only_def
          frankfurter_body_def)
  have "fst (getMidMarketRate reference_only ''2024-03-01'' ''USD'' ''JPY'' initial_world)
          = Inr (js_div (JNum (Fin 162)) (JNum (Fin 1.08)))"
    using triangulation_consistency[OF _ _ h3 h4 h5] by simp
  then show ?thesis using h3 h4 h5 by (simp add: js_div_def)
qed

subsection \<open>Every lookup past the cache goes to the network\<close>

lemma viaAPI_requests:
  "requests (snd (getMastercardRateViaAPI e d b q a w)) = requests w @ [MastercardGet d b q a]"
  by (simp add: getMastercardRateViaAPI_def io_defs split: sum.splits prod.splits)

lemma mc_miss_requests:
  "requests (snd (getMastercardRate_miss e d b q a w)) = requests w @ [MastercardGet d b q a]"
  using viaAPI_requests[of e d b q a w]
  by (auto simp add: getMastercardRate_miss_def io_defs split: sum.splits prod.splits)

lemma le_bind:
  assumes "length (requests w) \<le> length (requests (snd (m w)))"
    and "\<And>x w'. length (requests w') \<le> length (requests (snd (f x w')))"
  shows "length (requests w) \<le> length (requests (snd (io_bind m f w)))"
proof (cases "m w")
  case (Pair r w')
  show ?thesis
  proof (cases r)
    case (Inl x)
    with Pair assms(1) show ?thesis by (simp add: io_bind_def)
  next
    case (Inr x)
    with Pair assms(1) assms(2)[of w' x] show ?thesis by (simp add: io_bind_def)
  qed
qed

lemma lt_bind_left:
  assumes "length (requests w) < length (requests (snd (m w)))"
    and "\<And>x w'. length (requests w') \<le> length (requests (snd (f x w')))"
  shows "length (requests w) < length (requests (snd (io_bind m f w)))"
proof (cases "m w")
  case (Pair r w')
  show ?thesis
  proof (cases r)
    case (Inl x)
    with Pair assms(1) show ?thesis by (simp add: io_bind_def)
  next
    case (Inr x)
    with Pair assms(1) assms(2)[of w' x] show ?thesis by (simp add: io_bind_def)
  qed
qed

lemma le_catch:
  assumes "length (requests w) \<le> length (requests (snd (m w)))"
    and "\<And>x w'. length (requests w') \<le> length (requests (snd (h x w')))"
  shows "length (requests w) \<le> length (requests (snd (io_catch m h w)))"
proof (cases "m w")
  case (Pair r w')
  show ?thesis
  proof (cases r)
    case (Inl x)
    with Pair assms(1) assms(2)[of w' x] show ?thesis by (simp add: io_catch_def)
  next
    case (Inr x)
    with Pair assms(1) show ?thesis by (simp add: io_catch_def)
  qed
qed

lemma lt_catch:
  assumes "length (requests w) < length (requests (snd (m w)))"
    and "\<And>x w'. length (requests w') \<le> length (requests (snd (h x w')))"
  shows "length (requests w) < length (requests (snd (io_catch m h w)))"
proof (cases "m w")
  case (Pair r w')
  show ?thesis
  proof (cases r)
    case (Inl x)
    with Pair assms(1) assms(2)[of w' x] show ?thesis by (simp add: io_catch_def)
  next
    case (Inr x)
    with Pair assms(1) show ?thesis by (simp add: io_catch_def)
  qed
qed

lemma send_then:
  assumes "\<And>x w'. length (requests w') \<le> length (requests (snd (f x w')))"
  shows "length (requests w) < length (requests (snd (io_bind (send e r) f w)))"
  by (rule lt_bind_left) (simp_all add: send_def assms)

lemma le_simple:
  "length (requests w) \<le> length (requests (snd (io_return x w)))"
  "length (requests w) \<le> length (requests (snd (io_throw err w)))"
  "length (requests w) \<le> length (requests (snd (io_of r w)))"
  "length (requests w) \<le> length (requests (snd (console_log l w)))"
  "length (requests w) \<le> length (requests (snd (date_now e w)))"
  "length (requests w) \<le> length (requests (snd (send e rq w)))"
  by (simp_all add: io_defs)

lemma le_rates:
  "length (requests w) \<le> length (requests (snd (direct_rate data c w)))"
  "length (requests w) \<le> length (requests (snd (inverse_rate data c w)))"
  "length (requests w) \<le> length (requests (snd (cross_rate data c c' w)))"
  by (simp_all add: direct_rate_def inverse_rate_def cross_rate_def le_bind le_simple)

lemma mid_handler_le:
  "length (requests w) \<le> length (requests (snd (
     (if response_status x = Some 404 then
            io_bind (send e (FrankfurterGet ''latest''
                       (if b = ''EUR'' then q else b @ '','' @ q))) (\<lambda>data.
            io_bind (console_log (''Mid'', mid_params d b q, data)) (\<lambda>_.
            if b = ''EUR'' then direct_rate data q
            else if q = ''EUR'' then inverse_rate data b
            else cross_rate data b q))
          else io_throw (Error (''Failed to fetch mid-market rate: '' @ message x))) w)))"
  by (simp add: le_bind le_simple le_rates)

lemma mid_requests:
  "length (requests w) \<le> length (requests (snd (getMidMarketRate e d b q w)))"
  unfolding getMidMarketRate_def
  by (rule le_catch) (simp_all add: le_bind le_simple le_rates mid_handler_le)

lemma mid_requests_strict:
  "b \<noteq> q \<Longrightarrow> length (requests w) < length (requests (snd (getMidMarketRate e d b q w)))"
  unfolding getMidMarketRate_def
  by (rule lt_catch) (simp_all add: send_then le_bind le_simple le_rates mid_handler_le)

lemma visa_via_requests:
  "length (requests w) < length (requests (snd (getVisaRateViaPlaywright e d b q a w)))"
proof -
  have rest: "length (requests w') <
      length (requests (snd (io_bind (send e (VisaGet d b q a)) (\<lambda>data.
        io_bind (io_of (visa_normalize data a)) (\<lambda>perUnit.
        io_bind (console_log (''Visa'', rate_params d b q a, data)) (\<lambda>_.
        io_return perUnit))) w')))" for w'
    by (rule send_then) (simp add: le_bind le_simple)
  have "length (requests w) < length (requests (snd (
      io_bind (ensureBrowser_visa e) (\<lambda>_.
        io_bind (send e (VisaGet d b q a)) (\<lambda>data.
        io_bind (io_of (visa_normalize data a)) (\<lambda>perUnit.
        io_bind (console_log (''Visa'', rate_params d b q a, data)) (\<lambda>_.
        io_return perUnit)))) w)))"
  proof (cases "visa_page w")
    case True
    then show ?thesis using rest[of w] by (simp add: ensureBrowser_visa_def io_bind_def)
  next
    case False
    show ?thesis
    proof (rule lt_bind_left)
      show "length (requests w) < length (requests (snd (ensureBrowser_visa e w)))"
        using False by (simp add: ensureBrowser_visa_def io_defs split: sum.splits)
    next
      fix x w'
      show "length (requests w') \<le> length (requests (snd (
        io_bind (send e (VisaGet d b q a)) (\<lambda>data.
        io_bind (io_of (visa_normalize data a)) (\<lambda>perUnit.
        io_bind (console_log (''Visa'', rate_params d b q a, data)) (\<lambda>_.
        io_return perUnit))) w')))"
        using rest[of w'] by simp
    qed
  qed
  then show ?thesis
    unfolding getVisaRateViaPlaywright_def by (rule lt_catch) (simp add: le_simple)
qed

lemma visa_miss_requests:
  "length (requests w) < length (requests (snd (getVisaRate_miss e d b q a w)))"
  unfolding getVisaRate_miss_def
  by (rule lt_bind_left) (simp_all add: visa_via_requests io_defs)

lemma amex_via_requests:
  "length (requests w) < length (requests (snd (getAmexRateViaPlaywright e d b q a w)))"
proof -
  let ?tail = "\<lambda>ecbRate.
        io_bind (send e (AmexPost (market_of b))) (\<lambda>data.
        io_bind (io_of (amex_normalize data (market_of b) b q ecbRate)) (\<lambda>amexRate.
        if amexRate = JNull then io_return JNull
        else
          io_bind (console_log (''Amex'', amex_params d b q (market_of b) a, data))
            (\<lambda>_. io_return amexRate)))"
  let ?rest = "io_bind (getMidMarketRate e d b q) ?tail"
  have tail: "length (requests w') < length (requests (snd (?tail x w')))" for x w'
    by (rule send_then) (simp add: le_bind le_simple)
  have rest: "length (requests w') < length (requests (snd (?rest w')))" for w'
  proof (cases "b = q")
    case True
    then show ?thesis using tail[of w'] by (simp add: getMidMarketRate_same io_bind_def)
  next
    case False
    show ?thesis
    proof (rule lt_bind_left)
      show "length (requests w') < length (requests (snd (getMidMarketRate e d b q w')))"
        using False by (rule mid_requests_strict)
    next
      fix x w''
      show "length (requests w'') \<le> length (requests (snd (?tail x w'')))"
        using tail[of w'' x] by simp
    qed
  qed
  have "length (requests w) < length (requests (snd (io_bind (ensureBrowser_amex e) (\<lambda>_. ?rest) w)))"
  proof (cases "amex_page w")
    case True
    then show ?thesis using rest[of w] by (simp add: ensureBrowser_amex_def io_bind_def)
  next
    case False
    show ?thesis
    proof (rule lt_bind_left)
      show "length (requests w) < length (requests (snd (ensureBrowser_amex e w)))"
        using False by (simp add: ensureBrowser_amex_def io_defs split: sum.splits)
    next
      fix x w'
      show "length (requests w') \<le> length (requests (snd (?rest w')))"
        using rest[of w'] by simp
    qed
  qed
  then show ?thesis
    unfolding getAmexRateViaPlaywright_def by (rule lt_catch) (simp add: le_simple)
qed

lemma amex_miss_requests:
  "length (requests w) < length (requests (snd (getAmexRate_miss e d b q a w)))"
  unfolding getAmexRate_miss_def
  by (rule lt_bind_left) (simp_all add: amex_via_requests io_defs)

lemmas parse_defs =
  parseFloat_str_def split_decimal_def split_digits_def split_exponent_def scale10_def
  digits_val_def digit_val_def is_digit_def is_space_def

lemma parse_107_50: "parseFloat_str ''107.50'' = Fin 107.5"
  by (simp add: parse_defs)

lemma parse_1_08: "parseFloat_str ''1.08'' = Fin 1.08"
  by (simp add: parse_defs)

subsection \<open>What a lookup leaves untouched\<close>

lemma keeps_bind:
  assumes "keeps p m" and "\<And>x. keeps p (f x)"
  shows "keeps p (io_bind m f)"
  unfolding keeps_def
proof
  fix w
  obtain r w' where mw: "m w = (r, w')" by (cases "m w")
  from assms(1) mw have a: "p w' = p w" by (auto simp add: keeps_def dest: spec[of _ w])
  show "p (snd (io_bind m f w)) = p w"
  proof (cases r)
    case (Inl x)
    with mw a show ?thesis by (simp add: io_bind_def)
  next
    case (Inr x)
    from assms(2)[of x] have "p (snd (f x w')) = p w'" by (simp add: keeps_def)
    with Inr mw a show ?thesis by (simp add: io_bind_def)
  qed
qed

lemma keeps_catch:
  assumes "keeps p m" and "\<And>x. keeps p (h x)"
  shows "keeps p (io_catch m h)"
  unfolding keeps_def
proof
  fix w
  obtain r w' where mw: "m w = (r, w')" by (cases "m w")
  from assms(1) mw have a: "p w' = p w" by (auto simp add: keeps_def dest: spec[of _ w])
  show "p (snd (io_catch m h w)) = p w"
  proof (cases r)
    case (Inl x)
    from assms(2)[of x] have "p (snd (h x w')) = p w'" by (simp add: keeps_def)
    with Inl mw a show ?thesis by (simp add: io_catch_def)
  next
    case (Inr x)
    with mw a show ?thesis by (simp add: io_catch_def)
  qed
qed

lemma keeps_simple:
  "keeps p (io_return x)" "keeps p (io_throw err)" "keeps p (io_of r)"
  by (simp_all add: keeps_def io_defs)

lemma keeps_send:
  "keeps clock_reads (send e r)" "keeps mc_cache (send e r)"
  "keeps visa_cache (send e r)" "keeps amex_cache (send e r)"
  by (simp_all add: keeps_def send_def)

lemma keeps_log:
  "keeps clock_reads (console_log l)" "keeps mc_cache (console_log l)"
  "keeps visa_cache (console_log l)" "keeps amex_cache (console_log l)"
  by (simp_all add: keeps_def console_log_def)

lemma keeps_rates:
  "keeps p (direct_rate data c)" "keeps p (inverse_rate data c)" "keeps p (cross_rate data c c')"
  by (simp_all add: direct_rate_def inverse_rate_def cross_rate_def keeps_bind keeps_simple)

lemma keeps_mid:
  "keeps clock_reads (getMidMarketRate e d b q)" "keeps amex_cache (getMidMarketRate e d b q)"
  by (simp_all add: getMidMarketRate_def keeps_catch keeps_bind keeps_simple keeps_send keeps_log
        keeps_rates)

lemma keeps_mc_via:
  "keeps clock_reads (getMastercardRateViaAPI e d b q a)"
  "keeps mc_cache (getMastercardRateViaAPI e d b q a)"
  by (simp_all add: getMastercardRateViaAPI_def keeps_catch keeps_bind keeps_simple keeps_send
        keeps_log)

lemma keeps_browser_visa:
  "keeps clock_reads (ensureBrowser_visa e)" "keeps visa_cache (ensureBrowser_visa e)"
  by (simp_all add: keeps_def ensureBrowser_visa_def io_defs split: sum.splits)

lemma keeps_browser_amex:
  "keeps clock_reads (ensureBrowser_amex e)" "keeps amex_cache (ensureBrowser_amex e)"
  by (simp_all add: keeps_def ensureBrowser_amex_def io_defs split: sum.splits)

lemma keeps_visa_via:
  "keeps clock_reads (getVisaRateViaPlaywright e d b q a)"
  "keeps visa_cache (getVisaRateViaPlaywright e d b q a)"
  by (simp_all add: getVisaRateViaPlaywright_def keeps_catch keeps_bind keeps_simple keeps_send
        keeps_log keeps_browser_visa)

lemma keeps_amex_via:
  "keeps clock_reads (getAmexRateViaPlaywright e d b q a)"
  "keeps amex_cache (getAmexRateViaPlaywright e d b q a)"
  by (simp_all add: getAmexRateViaPlaywright_def keeps_catch keeps_bind keeps_simple keeps_send
        keeps_log keeps_browser_amex keeps_mid)

subsection \<open>The caches\<close>

lemma mc_miss_store:
  assumes "fst (getMastercardRate_miss e d b q a w) = Inr v"
  shows "mc_cache (snd (getMastercardRate_miss e d b q a w)) (getCacheKey e d b q a)
           = Some \<lparr>val = v, timestamp = clock e (clock_reads w)\<rparr>"
proof -
  obtain r w' where via: "getMastercardRateViaAPI e d b q a w = (r, w')"
    by (cases "getMastercardRateViaAPI e d b q a w")
  from keeps_mc_via(1)[of e d b q a] via have "clock_reads w' = clock_reads w"
    by (auto simp add: keeps_def dest: spec[of _ w])
  with assms via show ?thesis
    by (cases r) (auto simp add: getMastercardRate_miss_def io_defs split: if_splits)
qed

lemma visa_miss_store:
  assumes "fst (getVisaRate_miss e d b q a w) = Inr v"
  shows "visa_cache (snd (getVisaRate_miss e d b q a w)) (getCacheKey e d b q a)
           = Some \<lparr>val = v, timestamp = clock e (clock_reads w)\<rparr>"
proof -
  obtain r w' where via: "getVisaRateViaPlaywright e d b q a w = (r, w')"
    by (cases "getVisaRateViaPlaywright e d b q a w")
  from keeps_visa_via(1)[of e d b q a] via have "clock_reads w' = clock_reads w"
    by (auto simp add: keeps_def dest: spec[of _ w])
  with assms via show ?thesis
    by (cases r) (auto simp add: getVisaRate_miss_def io_defs split: if_splits)
qed

lemma amex_miss_store:
  assumes "fst (getAmexRate_miss e d b q a w) = Inr v" and "v \<noteq> JNull"
  shows "amex_cache (snd (getAmexRate_miss e d b q a w)) (getCacheKey_amex d b q)
           = Some \<lparr>val = v, timestamp = clock e (clock_reads w)\<rparr>"
proof -
  obtain r w' where via: "getAmexRateViaPlaywright e d b q a w = (r, w')"
    by (cases "getAmexRateViaPlaywright e d b q a w")
  from keeps_amex_via(1)[of e d b q a] via have "clock_reads w' = clock_reads w"
    by (auto simp add: keeps_def dest: spec[of _ w])
  with assms via show ?thesis
    by (cases r) (auto simp add: getAmexRate_miss_def io_defs split: if_splits)
qed

lemma mc_absent:
  "mc_cache w (getCacheKey e d b q a) = None \<Longrightarrow>
   getMastercardRate e d b q a w = getMastercardRate_miss e d b q a w"
  by (simp add: getMastercardRate_def)

lemma visa_absent:
  "visa_cache w (getCacheKey e d b q a) = None \<Longrightarrow>
   getVisaRate e d b q a w = getVisaRate_miss e d b q a w"
  by (simp add: getVisaRate_def)

lemma amex_absent:
  "amex_cache w (getCacheKey_amex d b q) = None \<Longrightarrow>
   getAmexRate e d b q a w = getAmexRate_miss e d b q a w"
  by (simp add: getAmexRate_def)

lemma mc_fresh:
  assumes "mc_cache w (getCacheKey e d b q a) = Some ent"
    and "clock e (clock_reads w) - timestamp ent < 3600000"
  shows "getMastercardRate e d b q a w = (Inr (val ent), w\<lparr>clock_reads := Suc (clock_reads w)\<rparr>)"
  using assms by (simp add: getMastercardRate_def io_defs CACHE_TTL_def)

lemma mc_stale:
  assumes "mc_cache w (getCacheKey e d b q a) = Some ent"
    and "3600000 \<le> clock e (clock_reads w) - timestamp ent"
  shows "getMastercardRate e d b q a w =
           getMastercardRate_miss e d b q a
             (w\<lparr>clock_reads := Suc (clock_reads w),
                mc_cache := (mc_cache w)(getCacheKey e d b q a := None)\<rparr>)"
  using assms by (simp add: getMastercardRate_def io_defs CACHE_TTL_def)

lemma visa_fresh:
  assumes "visa_cache w (getCacheKey e d b q a) = Some ent"
    and "clock e (clock_reads w) - timestamp ent < 3600000"
  shows "getVisaRate e d b q a w = (Inr (val ent), w\<lparr>clock_reads := Suc (clock_reads w)\<rparr>)"
  using assms by (simp add: getVisaRate_def io_defs CACHE_TTL_def)

lemma visa_stale:
  assumes "visa_cache w (getCacheKey e d b q a) = Some ent"
    and "3600000 \<le> clock e (clock_reads w) - timestamp ent"
  shows "getVisaRate e d b q a w =
           getVisaRate_miss e d b q a
             (w\<lparr>clock_reads := Suc (clock_reads w),
                visa_cache := (visa_cache w)(getCacheKey e d b q a := None)\<rparr>)"
  using assms by (simp add: getVisaRate_def io_defs CACHE_TTL_def)

lemma amex_fresh:
  assumes "amex_cache w (getCacheKey_amex d b q) = Some ent"
    and "clock e (clock_reads w) - timestamp ent < 3600000"
  shows "getAmexRate e d b q a w = (Inr (val ent), w\<lparr>clock_reads := Suc (clock_reads w)\<rparr>)"
  using assms by (simp add: getAmexRate_def io_defs CACHE_TTL_def)

lemma amex_stale:
  assumes "amex_cache w (getCacheKey_amex d b q) = Some ent"
    and "3600000 \<le> clock e (clock_reads w) - timestamp ent"
  shows "getAmexRate e d b q a w =
           getAmexRate_miss e d b q a
             (w\<lparr>clock_reads := Suc (clock_reads w),
                amex_cache := (amex_cache w)(getCacheKey_amex d b q := None)\<rparr>)"
  using assms by (simp add: getAmexRate_def io_defs CACHE_TTL_def)

text \<open>
  C7. The cache of each provider, for every key. A lookup that finds no entry and returns
  a rate stores it under the key with the time \<open>T\<close> of the clock. While less than one hour
  (3600000 ms) has passed since \<open>T\<close>, as at 59 minutes, a lookup returns the stored value
  and leaves the world as it was but for the reading of the clock: nothing is fetched.
  Once an hour has passed, as at 61 minutes, a lookup is the lookup of a world from which
  the entry is gone: it fetches again, sending requests (for Mastercard exactly the
  request of the key). Amex stores every rate but \<open>null\<close>.
\<close>

theorem cache_ttl_one_hour:
  "(mc_cache w (getCacheKey e d b q a) = None \<and> fst (getMastercardRate e d b q a w) = Inr v \<longrightarrow>
      mc_cache (snd (getMastercardRate e d b q a w)) (getCacheKey e d b q a)
        = Some \<lparr>val = v, timestamp = clock e (clock_reads w)\<rparr>)
   \<and> (mc_cache w (getCacheKey e d b q a) = Some ent \<longrightarrow>
      (clock e (clock_reads w) - timestamp ent < 3600000 \<longrightarrow>
         getMastercardRate e d b q a w = (Inr (val ent), w\<lparr>clock_reads := Suc (clock_reads w)\<rparr>))
    \<and> (3600000 \<le> clock e (clock_reads w) - timestamp ent \<longrightarrow>
         getMastercardRate e d b q a w =
           getMastercardRate e d b q a
             (w\<lparr>clock_reads := Suc (clock_reads w),
                mc_cache := (mc_cache w)(getCacheKey e d b q a := None)\<rparr>)
         \<and> getMastercardRate e d b q a w =
           getMastercardRate_miss e d b q a
             (w\<lparr>clock_reads := Suc (clock_reads w),
                mc_cache := (mc_cache w)(getCacheKey e d b q a := None)\<rparr>)
         \<and> requests (snd (getMastercardRate e d b q a w)) = requests w @ [MastercardGet d b q a]))
   \<and> (visa_cache w (getCacheKey e d b q a) = None \<and> fst (getVisaRate e d b q a w) = Inr v \<longrightarrow>
      visa_cache (snd (getVisaRate e d b q a w)) (getCacheKey e d b q a)
        = Some \<lparr>val = v, timestamp = clock e (clock_reads w)\<rparr>)
   \<and> (visa_cache w (getCacheKey e d b q a) = Some ent \<longrightarrow>
      (clock e (clock_reads w) - timestamp ent < 3600000 \<longrightarrow>
         getVisaRate e d b q a w = (Inr (val ent), w\<lparr>clock_reads := Suc (clock_reads w)\<rparr>))
    \<and> (3600000 \<le> clock e (clock_reads w) - timestamp ent \<longrightarrow>
         getVisaRate e d b q a w =
           getVisaRate e d b q a
             (w\<lparr>clock_reads := Suc (clock_reads w),
                visa_cache := (visa_cache w)(getCacheKey e d b q a := None)\<rparr>)
         \<and> getVisaRate e d b q a w =
           getVisaRate_miss e d b q a
             (w\<lparr>clock_reads := Suc (clock_reads w),
                visa_cache := (visa_cache w)(getCacheKey e d b q a := None)\<rparr>)
         \<and> length (requests w) < length (requests (snd (getVisaRate e d b q a w)))))
   \<and> (amex_cache w (getCacheKey_amex d b q) = None \<and> fst (getAmexRate e d b q a w) = Inr v
        \<and> v \<noteq> JNull \<longrightarrow>
      amex_cache (snd (getAmexRate e d b q a w)) (getCacheKey_amex d b q)
        = Some \<lparr>val = v, timestamp = clock e (clock_reads w)\<rparr>)
   \<and> (amex_cache w (getCacheKey_amex d b q) = Some ent \<longrightarrow>
      (clock e (clock_reads w) - timestamp ent < 3600000 \<longrightarrow>
         getAmexRate e d b q a w = (Inr (val ent), w\<lparr>clock_reads := Suc (clock_reads w)\<rparr>))
    \<and> (3600000 \<le> clock e (clock_reads w) - timestamp ent \<longrightarrow>
         getAmexRate e d b q a w =
           getAmexRate e d b q a
             (w\<lparr>clock_reads := Suc (clock_reads w),
                amex_cache := (amex_cache w)(getCacheKey_amex d b q := None)\<rparr>)
         \<and> getAmexRate e d b q a w =
           getAmexRate_miss e d b q a
             (w\<lparr>clock_reads := Suc (clock_reads w),
                amex_cache := (amex_cache w)(getCacheKey_amex d b q := None)\<rparr>)
         \<and> length (requests w) < length (requests (snd (getAmexRate e d b q a w)))))"
proof -
  let ?wm = "w\<lparr>clock_reads := Suc (clock_reads w),
                mc_cache := (mc_cache w)(getCacheKey e d b q a := None)\<rparr>"
  let ?wv = "w\<lparr>clock_reads := Suc (clock_reads w),
                visa_cache := (visa_cache w)(getCacheKey e d b q a := None)\<rparr>"
  let ?wa = "w\<lparr>clock_reads := Suc (clock_reads w),
                amex_cache := (amex_cache w)(getCacheKey_amex d b q := None)\<rparr>"
  have m1: "mc_cache w (getCacheKey e d b q a) = None \<and> fst (getMastercardRate e d b q a w) = Inr v \<longrightarrow>
      mc_cache (snd (getMastercardRate e d b q a w)) (getCacheKey e d b q a)
        = Some \<lparr>val = v, timestamp = clock e (clock_reads w)\<rparr>"
    by (auto simp add: mc_absent mc_miss_store)
  have m2: "mc_cache w (getCacheKey e d b q a) = Some ent \<longrightarrow>
      (clock e (clock_reads w) - timestamp ent < 3600000 \<longrightarrow>
         getMastercardRate e d b q a w = (Inr (val ent), w\<lparr>clock_reads := Suc (clock_reads w)\<rparr>))
    \<and> (3600000 \<le> clock e (clock_reads w) - timestamp ent \<longrightarrow>
         getMastercardRate e d b q a w = getMastercardRate e d b q a ?wm
         \<and> getMastercardRate e d b q a w = getMastercardRate_miss e d b q a ?wm
         \<and> requests (snd (getMastercardRate e d b q a w)) = requests w @ [MastercardGet d b q a])"
  proof (intro impI conjI)
    assume h: "mc_cache w (getCacheKey e d b q a) = Some ent"
    {
      assume "clock e (clock_reads w) - timestamp ent < 3600000"
      with h show "getMastercardRate e d b q a w = (Inr (val ent), w\<lparr>clock_reads := Suc (clock_reads w)\<rparr>)"
        by (rule mc_fresh)
    }
    assume "3600000 \<le> clock e (clock_reads w) - timestamp ent"
    with h have s: "getMastercardRate e d b q a w = getMastercardRate_miss e d b q a ?wm"
      by (rule mc_stale)
    have t: "getMastercardRate e d b q a ?wm = getMastercardRate_miss e d b q a ?wm"
      by (rule mc_absent) simp
    show "getMastercardRate e d b q a w = getMastercardRate_miss e d b q a ?wm" by (rule s)
    show "getMastercardRate e d b q a w = getMastercardRate e d b q a ?wm" using s t by simp
    show "requests (snd (getMastercardRate e d b q a w)) = requests w @ [MastercardGet d b q a]"
      unfolding s by (simp add: mc_miss_requests)
  qed
  have v1: "visa_cache w (getCacheKey e d b q a) = None \<and> fst (getVisaRate e d b q a w) = Inr v \<longrightarrow>
      visa_cache (snd (getVisaRate e d b q a w)) (getCacheKey e d b q a)
        = Some \<lparr>val = v, timestamp = clock e (clock_reads w)\<rparr>"
    by (auto simp add: visa_absent visa_miss_store)
  have v2: "visa_cache w (getCacheKey e d b q a) = Some ent \<longrightarrow>
      (clock e (clock_reads w) - timestamp ent < 3600000 \<longrightarrow>
         getVisaRate e d b q a w = (Inr (val ent), w\<lparr>clock_reads := Suc (clock_reads w)\<rparr>))
    \<and> (3600000 \<le> clock e (clock_reads w) - timestamp ent \<longrightarrow>
         getVisaRate e d b q a w = getVisaRate e d b q a ?wv
         \<and> getVisaRate e d b q a w = getVisaRate_miss e d b q a ?wv
         \<and> length (requests w) < length (requests (snd (getVisaRate e d b q a w))))"
  proof (intro impI conjI)
    assume h: "visa_cache w (getCacheKey e d b q a) = Some ent"
    {
      assume "clock e (clock_reads w) - timestamp ent < 3600000"
      with h show "getVisaRate e d b q a w = (Inr (val ent), w\<lparr>clock_reads := Suc (clock_reads w)\<rparr>)"
        by (rule visa_fresh)
    }
    assume "3600000 \<le> clock e (clock_reads w) - timestamp ent"
    with h have s: "getVisaRate e d b q a w = getVisaRate_miss e d b q a ?wv"
      by (rule visa_stale)
    have t: "getVisaRate e d b q a ?wv = getVisaRate_miss e d b q a ?wv"
      by (rule visa_absent) simp
    show "getVisaRate e d b q a w = getVisaRate_miss e d b q a ?wv" by (rule s)
    show "getVisaRate e d b q a w = getVisaRate e d b q a ?wv" using s t by simp
    show "length (requests w) < length (requests (snd (getVisaRate e d b q a w)))"
      unfolding s using visa_miss_requests[of ?wv e d b q a] by simp
  qed
  have a1: "amex_cache w (getCacheKey_amex d b q) = None \<and> fst (getAmexRate e d b q a w) = Inr v
        \<and> v \<noteq> JNull \<longrightarrow>
      amex_cache (snd (getAmexRate e d b q a w)) (getCacheKey_amex d b q)
        = Some \<lparr>val = v, timestamp = clock e (clock_reads w)\<rparr>"
    by (auto simp add: amex_absent amex_miss_store)
  have a2: "amex_cache w (getCacheKey_amex d b q) = Some ent \<longrightarrow>
      (clock e (clock_reads w) - timestamp ent < 3600000 \<longrightarrow>
         getAmexRate e d b q a w = (Inr (val ent), w\<lparr>clock_reads := Suc (clock_reads w)\<rparr>))
    \<and> (3600000 \<le> clock e (clock_reads w) - timestamp ent \<longrightarrow>
         getAmexRate e d b q a w = getAmexRate e d b q a ?wa
         \<and> getAmexRate e d b q a w = getAmexRate_miss e d b q a ?wa
         \<and> length (requests w) < length (requests (snd (getAmexRate e d b q a w))))"
  proof (intro impI conjI)
    assume h: "amex_cache w (getCacheKey_amex d b q) = Some ent"
    {
      assume "clock e (clock_reads w) - timestamp ent < 3600000"
      with h show "getAmexRate e d b q a w = (Inr (val ent), w\<lparr>clock_reads := Suc (clock_reads w)\<rparr>)"
        by (rule amex_fresh)
    }
    assume "3600000 \<le> clock e (clock_reads w) - timestamp ent"
    with h have s: "getAmexRate e d b q a w = getAmexRate_miss e d b q a ?wa"
      by (rule amex_stale)
    have t: "getAmexRate e d b q a ?wa = getAmexRate_miss e d b q a ?wa"
      by (rule amex_absent) simp
    show "getAmexRate e d b q a w = getAmexRate_miss e d b q a ?wa" by (rule s)
    show "getAmexRate e d b q a w = getAmexRate e d b q a ?wa" using s t by simp
    show "length (requests w) < length (requests (snd (getAmexRate e d b q a w)))"
      unfolding s using amex_miss_requests[of ?wa e d b q a] by simp
  qed
  from m1 m2 v1 v2 a1 a2 show ?thesis by blast
qed

lemma digits_one: "digits_of (Suc 0) = ''1''"
  by code_simp

lemma whole_one: "whole_number_string (Fin 1) = ''1''"
  by (simp add: whole_number_string_def string_of_int_def digits_one)

lemma key_one: "getCacheKey answering d b q (Fin 1) = d @ ''|'' @ b @ ''|'' @ q @ ''|1''"
  by (simp add: getCacheKey_def answering_def providers_def whole_one)

lemma answering_http:
  "http answering n (MastercardGet d b q a) = Inr (mastercard_body (JStr ''107.50'') (JStr ''1.08''))"
  "http answering n (VisaGet d b q a) = Inr (visa_body (JStr ''1.09''))"
  "http answering n (AmexPost m) = Inr (icc_entries (JStr ''2.5''))"
  "http answering n BrowserLaunch = Inr JUndefined"
  "http answering n (PageGoto u) = Inr JUndefined"
  "http answering n (FrankfurterGet p t)
     = Inr (frankfurter_body [(''USD'', 1.08), (''JPY'', 162), (''CHF'', 0.96)])"
  by (simp_all add: answering_def providers_def)

lemma answering_clock:
  "clock answering 0 = 1000" "clock answering (Suc 0) = 3541000" "clock answering 2 = 3661000"
  by (simp_all add: answering_def providers_def clock_59_61_def)

lemma mc_first:
  "getMastercardRate answering ''2024-03-01'' ''USD'' ''JPY'' (Fin 1) initial_world
     = (Inr (JNum (Fin 107.5)),
        initial_world\<lparr>requests := [MastercardGet ''2024-03-01'' ''USD'' ''JPY'' (Fin 1)],
          clock_reads := 1,
          console := [(''Mastercard'', rate_params ''2024-03-01'' ''USD'' ''JPY'' (Fin 1),
                       mastercard_body (JStr ''107.50'') (JStr ''1.08''))],
          mc_cache := [''2024-03-01|USD|JPY|1'' \<mapsto> \<lparr>val = JNum (Fin 107.5), timestamp = 1000\<rparr>]\<rparr>)"
  by (simp add: getMastercardRate_def getMastercardRate_miss_def getMastercardRateViaAPI_def io_defs
        key_one answering_http answering_clock initial_world_def mastercard_body_def
        mastercard_normalize_def parse_107_50)

lemma parse_1_09: "parseFloat_str ''1.09'' = Fin 1.09"
  by (simp add: parse_defs)

lemma parse_2_5: "parseFloat_str ''2.5'' = Fin 2.5"
  by (simp add: parse_defs)

lemma market_usd: "market_of ''USD'' = ''ICC''"
  by (simp add: market_of_def currencyToCountry_def)

lemma visa_first:
  "getVisaRate answering ''2024-03-01'' ''USD'' ''JPY'' (Fin 1) initial_world
     = (Inr (JNum (Fin 1.09)),
        initial_world\<lparr>requests := [BrowserLaunch, PageGoto VISA_URL,
                                     VisaGet ''2024-03-01'' ''USD'' ''JPY'' (Fin 1)],
          clock_reads := 1,
          console := [(''Visa'', rate_params ''2024-03-01'' ''USD'' ''JPY'' (Fin 1),
                       visa_body (JStr ''1.09''))],
          visa_cache := [''2024-03-01|USD|JPY|1'' \<mapsto> \<lparr>val = JNum (Fin 1.09), timestamp = 1000\<rparr>],
          visa_page := True\<rparr>)"
  by (simp add: getVisaRate_def getVisaRate_miss_def getVisaRateViaPlaywright_def
        ensureBrowser_visa_def io_defs key_one answering_http answering_clock initial_world_def
        visa_body_def visa_normalize_def parse_1_09)

lemma mid_usd_jpy_answering:
  "getMidMarketRate answering d ''USD'' ''JPY'' w
     = (Inr (JNum (Fin 150)),
        w\<lparr>requests := requests w @ [FrankfurterGet d ''USD,JPY''],
          console := console w @ [(''Mid'', mid_params d ''USD'' ''JPY'',
             frankfurter_body [(''USD'', 1.08), (''JPY'', 162), (''CHF'', 0.96)])]\<rparr>)"
  by (simp add: getMidMarketRate_def io_defs cross_rate_def rate_of_def answering_http
        frankfurter_body_def js_div_def)

lemma normalize_usd_jpy:
  "amex_normalize (icc_entries v) ''ICC'' ''USD'' ''JPY'' ecb =
     (if truthy v
      then Inr (JNum (num_mul (to_number ecb) (num_add (Fin 1) (num_div (parseFloat v) (Fin 100)))))
      else Inl (Error ''Could not parse Amex API response''))"
  by (simp add: icc_entries_def amex_icc_def amex_apply_variance_def prop_is_def)

lemma amex_first:
  "getAmexRate answering ''2024-03-01'' ''USD'' ''JPY'' (Fin 1) initial_world
     = (Inr (JNum (Fin 153.75)),
        initial_world\<lparr>requests := [BrowserLaunch, PageGoto AMEX_URL,
                                     FrankfurterGet ''2024-03-01'' ''USD,JPY'', AmexPost ''ICC''],
          clock_reads := 1,
          console := [(''Mid'', mid_params ''2024-03-01'' ''USD'' ''JPY'',
                       frankfurter_body [(''USD'', 1.08), (''JPY'', 162), (''CHF'', 0.96)]),
                      (''Amex'', amex_params ''2024-03-01'' ''USD'' ''JPY'' ''ICC'' (Fin 1),
                       icc_entries (JStr ''2.5''))],
          amex_cache := [''2024-03-01|USD|JPY'' \<mapsto> \<lparr>val = JNum (Fin 153.75), timestamp = 1000\<rparr>],
          amex_page := True\<rparr>)"
  by (simp add: getAmexRate_def getAmexRate_miss_def getAmexRateViaPlaywright_def
        ensureBrowser_amex_def getCacheKey_amex_def io_defs mid_usd_jpy_answering market_usd
        normalize_usd_jpy answering_http answering_clock initial_world_def parse_2_5)

theorem cache_ttl_one_hour_witness:
  "fst (getMastercardRate answering ''2024-03-01'' ''USD'' ''JPY'' (Fin 1) initial_world)
     = Inr (JNum (Fin 107.5))
   \<and> mc_cache mc_stored (getCacheKey answering ''2024-03-01'' ''USD'' ''JPY'' (Fin 1))
     = Some \<lparr>val = JNum (Fin 107.5), timestamp = 1000\<rparr>
   \<and> clock answering (clock_reads mc_stored) = 1000 + 59 * 60 * 1000
   \<and> getMastercardRate answering ''2024-03-01'' ''USD'' ''JPY'' (Fin 1) mc_stored
     = (Inr (JNum (Fin 107.5)), mc_stored\<lparr>clock_reads := 2\<rparr>)
   \<and> clock answering 2 = 1000 + 61 * 60 * 1000
   \<and> requests (snd (getMastercardRate answering ''2024-03-01'' ''USD'' ''JPY'' (Fin 1)
                      (mc_stored\<lparr>clock_reads := 2\<rparr>)))
     = [MastercardGet ''2024-03-01'' ''USD'' ''JPY'' (Fin 1),
        MastercardGet ''2024-03-01'' ''USD'' ''JPY'' (Fin 1)]
   \<and> fst (getVisaRate answering ''2024-03-01'' ''USD'' ''JPY'' (Fin 1) initial_world)
     = Inr (JNum (Fin 1.09))
   \<and> visa_cache visa_stored (getCacheKey answering ''2024-03-01'' ''USD'' ''JPY'' (Fin 1))
     = Some \<lparr>val = JNum (Fin 1.09), timestamp = 1000\<rparr>
   \<and> getVisaRate answering ''2024-03-01'' ''USD'' ''JPY'' (Fin 1) visa_stored
     = (Inr (JNum (Fin 1.09)), visa_stored\<lparr>clock_reads := 2\<rparr>)
   \<and> getVisaRate answering ''2024-03-01'' ''USD'' ''JPY'' (Fin 1) (visa_stored\<lparr>clock_reads := 2\<rparr>)
     = getVisaRate_miss answering ''2024-03-01'' ''USD'' ''JPY'' (Fin 1)
         (visa_stored\<lparr>clock_reads := 3, visa_cache := Map.empty\<rparr>)
   \<and> 3 < length (requests (snd (getVisaRate answering ''2024-03-01'' ''USD'' ''JPY'' (Fin 1)
                      (visa_stored\<lparr>clock_reads := 2\<rparr>))))
   \<and> fst (getAmexRate answering ''2024-03-01'' ''USD'' ''JPY'' (Fin 1) initial_world)
     = Inr (JNum (Fin 153.75))
   \<and> amex_cache amex_stored (getCacheKey_amex ''2024-03-01'' ''USD'' ''JPY'')
     = Some \<lparr>val = JNum (Fin 153.75), timestamp = 1000\<rparr>
   \<and> getAmexRate answering ''2024-03-01'' ''USD'' ''JPY'' (Fin 1) amex_stored
     = (Inr (JNum (Fin 153.75)), amex_stored\<lparr>clock_reads := 2\<rparr>)
   \<and> getAmexRate answering ''2024-03-01'' ''USD'' ''JPY'' (Fin 1) (amex_stored\<lparr>clock_reads := 2\<rparr>)
     = getAmexRate_miss answering ''2024-03-01'' ''USD'' ''JPY'' (Fin 1)
         (amex_stored\<lparr>clock_reads := 3, amex_cache := Map.empty\<rparr>)
   \<and> 4 < length (requests (snd (getAmexRate answering ''2024-03-01'' ''USD'' ''JPY'' (Fin 1)
                      (amex_stored\<lparr>clock_reads := 2\<rparr>))))"
proof -
  let ?d = "''2024-03-01''" and ?b = "''USD''" and ?q = "''JPY''"
  let ?km = "getCacheKey answering ?d ?b ?q (Fin 1)"
  let ?ka = "getCacheKey_amex ?d ?b ?q"
  let ?em = "\<lparr>val = JNum (Fin 107.5), timestamp = 1000\<rparr>"
  let ?ev = "\<lparr>val = JNum (Fin 1.09), timestamp = 1000\<rparr>"
  let ?ea = "\<lparr>val = JNum (Fin 153.75), timestamp = 1000\<rparr>"
  have none: "mc_cache initial_world ?km = None" "visa_cache initial_world ?km = None"
    "amex_cache initial_world ?ka = None"
    by (simp_all add: initial_world_def)
  have clk: "clock answering (clock_reads initial_world) = 1000"
    by (simp add: initial_world_def answering_clock)
  have m0: "fst (getMastercardRate answering ?d ?b ?q (Fin 1) initial_world) = Inr (JNum (Fin 107.5))"
    by (simp add: mc_first)
  have v0: "fst (getVisaRate answering ?d ?b ?q (Fin 1) initial_world) = Inr (JNum (Fin 1.09))"
    by (simp add: visa_first)
  have a0: "fst (getAmexRate answering ?d ?b ?q (Fin 1) initial_world) = Inr (JNum (Fin 153.75))"
    by (simp add: amex_first)
  have m1: "mc_cache mc_stored ?km = Some ?em"
    using cache_ttl_one_hour[where w = initial_world and e = answering and d = ?d and b = ?b
        and q = ?q and a = "Fin 1" and v = "JNum (Fin 107.5)",
        THEN conjunct1] none m0 clk
    by (simp add: mc_stored_def)
  have v1: "visa_cache visa_stored ?km = Some ?ev"
    using cache_ttl_one_hour[where w = initial_world and e = answering and d = ?d and b = ?b
        and q = ?q and a = "Fin 1" and v = "JNum (Fin 1.09)",
        THEN conjunct2, THEN conjunct2, THEN conjunct1] none v0 clk
    by (simp add: visa_stored_def)
  have a1: "amex_cache amex_stored ?ka = Some ?ea"
    using cache_ttl_one_hour[where w = initial_world and e = answering and d = ?d and b = ?b
        and q = ?q and a = "Fin 1" and v = "JNum (Fin 153.75)",
        THEN conjunct2, THEN conjunct2, THEN conjunct2, THEN conjunct2, THEN conjunct1] none a0 clk
    by (simp add: amex_stored_def)
  have reads: "clock_reads mc_stored = 1" "clock_reads visa_stored = 1" "clock_reads amex_stored = 1"
    by (simp_all add: mc_stored_def visa_stored_def amex_stored_def mc_first visa_first amex_first)
  have sent: "requests mc_stored = [MastercardGet ?d ?b ?q (Fin 1)]"
    "length (requests visa_stored) = 3" "length (requests amex_stored) = 4"
    by (simp_all add: mc_stored_def visa_stored_def amex_stored_def mc_first visa_first amex_first)
  have only: "mc_cache mc_stored = [?km \<mapsto> ?em]" "visa_cache visa_stored = [?km \<mapsto> ?ev]"
    "amex_cache amex_stored = [?ka \<mapsto> ?ea]"
    unfolding mc_stored_def visa_stored_def amex_stored_def mc_first visa_first amex_first
    by (simp_all add: key_one getCacheKey_amex_def initial_world_def)
  have m2: "getMastercardRate answering ?d ?b ?q (Fin 1) mc_stored
              = (Inr (JNum (Fin 107.5)), mc_stored\<lparr>clock_reads := 2\<rparr>)"
    using cache_ttl_one_hour[where w = mc_stored and e = answering and d = ?d and b = ?b
        and q = ?q and a = "Fin 1" and ent = ?em,
        THEN conjunct2, THEN conjunct1] m1 reads
    by (simp add: answering_clock)
  have v2: "getVisaRate answering ?d ?b ?q (Fin 1) visa_stored
              = (Inr (JNum (Fin 1.09)), visa_stored\<lparr>clock_reads := 2\<rparr>)"
    using cache_ttl_one_hour[where w = visa_stored and e = answering and d = ?d and b = ?b
        and q = ?q and a = "Fin 1" and ent = ?ev,
        THEN conjunct2, THEN conjunct2, THEN conjunct2, THEN conjunct1] v1 reads
    by (simp add: answering_clock)
  have a2: "getAmexRate answering ?d ?b ?q (Fin 1) amex_stored
              = (Inr (JNum (Fin 153.75)), amex_stored\<lparr>clock_reads := 2\<rparr>)"
    using cache_ttl_one_hour[where w = amex_stored and e = answering and d = ?d and b = ?b
        and q = ?q and a = "Fin 1" and ent = ?ea,
        THEN conjunct2, THEN conjunct2, THEN conjunct2, THEN conjunct2, THEN conjunct2] a1 reads
    by (simp add: answering_clock)
  have late: "3600000 \<le> clock answering (clock_reads (mc_stored\<lparr>clock_reads := 2\<rparr>)) - timestamp ?em"
    "3600000 \<le> clock answering (clock_reads (visa_stored\<lparr>clock_reads := 2\<rparr>)) - timestamp ?ev"
    "3600000 \<le> clock answering (clock_reads (amex_stored\<lparr>clock_reads := 2\<rparr>)) - timestamp ?ea"
    by (simp_all add: answering_clock)
  have kept: "mc_cache (mc_stored\<lparr>clock_reads := 2\<rparr>) ?km = Some ?em"
    "visa_cache (visa_stored\<lparr>clock_reads := 2\<rparr>) ?km = Some ?ev"
    "amex_cache (amex_stored\<lparr>clock_reads := 2\<rparr>) ?ka = Some ?ea"
    using m1 v1 a1 by simp_all
  note ms = cache_ttl_one_hour[where w = "mc_stored\<lparr>clock_reads := 2\<rparr>" and e = answering
        and d = ?d and b = ?b and q = ?q and a = "Fin 1" and ent = ?em,
        THEN conjunct2, THEN conjunct1, THEN mp, OF kept(1), THEN conjunct2, THEN mp, OF late(1)]
  note vs = cache_ttl_one_hour[where w = "visa_stored\<lparr>clock_reads := 2\<rparr>" and e = answering
        and d = ?d and b = ?b and q = ?q and a = "Fin 1" and ent = ?ev,
        THEN conjunct2, THEN conjunct2, THEN conjunct2, THEN conjunct1, THEN mp, OF kept(2),
        THEN conjunct2, THEN mp, OF late(2)]
  note as = cache_ttl_one_hour[where w = "amex_stored\<lparr>clock_reads := 2\<rparr>" and e = answering
        and d = ?d and b = ?b and q = ?q and a = "Fin 1" and ent = ?ea,
        THEN conjunct2, THEN conjunct2, THEN conjunct2, THEN conjunct2, THEN conjunct2, THEN mp,
        OF kept(3), THEN conjunct2, THEN mp, OF late(3)]
  have m3: "requests (snd (getMastercardRate answering ?d ?b ?q (Fin 1) (mc_stored\<lparr>clock_reads := 2\<rparr>)))
              = [MastercardGet ?d ?b ?q (Fin 1), MastercardGet ?d ?b ?q (Fin 1)]"
    using ms[THEN conjunct2, THEN conjunct2] sent(1) by simp
  have v3: "getVisaRate answering ?d ?b ?q (Fin 1) (visa_stored\<lparr>clock_reads := 2\<rparr>)
              = getVisaRate_miss answering ?d ?b ?q (Fin 1)
                  (visa_stored\<lparr>clock_reads := 3, visa_cache := Map.empty\<rparr>)"
    using vs[THEN conjunct2, THEN conjunct1] only(2) by simp
  have v4: "3 < length (requests (snd (getVisaRate answering ?d ?b ?q (Fin 1)
                      (visa_stored\<lparr>clock_reads := 2\<rparr>))))"
    using vs[THEN conjunct2, THEN conjunct2] sent(2) by simp
  have a3: "getAmexRate answering ?d ?b ?q (Fin 1) (amex_stored\<lparr>clock_reads := 2\<rparr>)
              = getAmexRate_miss answering ?d ?b ?q (Fin 1)
                  (amex_stored\<lparr>clock_reads := 3, amex_cache := Map.empty\<rparr>)"
    using as[THEN conjunct2, THEN conjunct1] only(3) by simp
  have a4: "4 < length (requests (snd (getAmexRate answering ?d ?b ?q (Fin 1)
                      (amex_stored\<lparr>clock_reads := 2\<rparr>))))"
    using as[THEN conjunct2, THEN conjunct2] sent(3) by simp
  have c1: "clock answering (clock_reads mc_stored) = 1000 + 59 * 60 * 1000"
    by (simp add: reads answering_clock)
  have c2: "clock answering 2 = 1000 + 61 * 60 * 1000"
    by (simp add: answering_clock)
  from m0 m1 c1 m2 c2 m3 v0 v1 v2 v3 v4 a0 a1 a2 a3 a4 show ?thesis by blast
qed

subsection \<open>The Mastercard normalizer\<close>

lemma viaAPI_result:
  assumes "http e (length (requests w)) (MastercardGet d b q amount) = Inr body"
    and "get_prop body ''data'' = Inr data" and "truthy data"
  shows "fst (getMastercardRateViaAPI e d b q amount w) =
           Inr (case mastercard_normalize data amount of Inl x \<Rightarrow> JNull | Inr r \<Rightarrow> r)"
proof -
  have "truthy body" using assms(2,3) by (cases body) auto
  then show ?thesis using assms
    by (simp add: getMastercardRateViaAPI_def io_defs split: sum.splits)
qed

lemma mc_miss_result:
  "fst (getMastercardRate_miss e d b q amount w) =
     (case fst (getMastercardRateViaAPI e d b q amount w) of
        Inl x \<Rightarrow> Inl x
      | Inr r \<Rightarrow> if r \<noteq> JNull then Inr r else Inl (Error ''Failed to fetch Mastercard rate from API''))"
  by (simp add: getMastercardRate_miss_def io_defs split: sum.splits prod.splits)

lemma viaAPI_no_data:
  assumes "(\<exists>x. http e (length (requests w)) (MastercardGet d b q amount) = Inl x)
         \<or> (\<exists>body. http e (length (requests w)) (MastercardGet d b q amount) = Inr body
               \<and> (\<not> truthy body \<or> (\<exists>data. get_prop body ''data'' = Inr data \<and> \<not> truthy data)))"
  shows "fst (getMastercardRateViaAPI e d b q amount w) = Inr JNull"
  using assms
  by (auto simp add: getMastercardRateViaAPI_def io_defs split: sum.splits)

text \<open>
  C8, as the code has it. The Mastercard lookup, when the cache has no entry for the key.
  If the response carries a \<open>data\<close> object, with the converted amount \<open>converted\<close> and
  the rate \<open>perUnit\<close> (either may be \<open>undefined\<close>): when the converted amount is truthy (so
  neither missing, nor the number 0, nor NaN, nor the empty string) and parses, and the
  amount is positive, the rate is the converted amount over the amount; otherwise it is
  the stated rate when that is truthy and parses; otherwise the lookup throws. If the
  request fails or the response carries no \<open>data\<close> object, the lookup throws.
\<close>

theorem mastercard_preference_order:
  assumes "mc_cache w (getCacheKey e d b q amount) = None"
  shows "(http e (length (requests w)) (MastercardGet d b q amount) = Inr body
          \<and> get_prop body ''data'' = Inr data \<and> truthy data
          \<and> get_prop data ''crdhldBillAmt'' = Inr converted
          \<and> get_prop data ''conversionRate'' = Inr perUnit
          \<longrightarrow> fst (getMastercardRate e d b q amount w) =
                (if truthy converted \<and> parseFloat converted \<noteq> NaN \<and> num_pos amount
                 then Inr (JNum (num_div (parseFloat converted) amount))
                 else if truthy perUnit \<and> parseFloat perUnit \<noteq> NaN
                 then Inr (JNum (parseFloat perUnit))
                 else Inl (Error ''Failed to fetch Mastercard rate from API'')))
       \<and> ((\<exists>x. http e (length (requests w)) (MastercardGet d b q amount) = Inl x)
          \<or> (\<exists>body. http e (length (requests w)) (MastercardGet d b q amount) = Inr body
               \<and> (\<not> truthy body \<or> (\<exists>data. get_prop body ''data'' = Inr data \<and> \<not> truthy data)))
          \<longrightarrow> fst (getMastercardRate e d b q amount w)
                = Inl (Error ''Failed to fetch Mastercard rate from API''))"
proof (intro conjI impI)
  have miss: "fst (getMastercardRate e d b q amount w) = fst (getMastercardRate_miss e d b q amount w)"
    using assms by (simp add: getMastercardRate_def)
  {
    assume h: "http e (length (requests w)) (MastercardGet d b q amount) = Inr body
          \<and> get_prop body ''data'' = Inr data \<and> truthy data
          \<and> get_prop data ''crdhldBillAmt'' = Inr converted
          \<and> get_prop data ''conversionRate'' = Inr perUnit"
    then have via: "fst (getMastercardRateViaAPI e d b q amount w) =
           Inr (case mastercard_normalize data amount of Inl x \<Rightarrow> JNull | Inr r \<Rightarrow> r)"
      using viaAPI_result[of e w d b q amount body data] by blast
    have norm: "mastercard_normalize data amount =
           (if truthy converted \<and> parseFloat converted \<noteq> NaN \<and> num_pos amount
            then Inr (JNum (num_div (parseFloat converted) amount))
            else if truthy perUnit \<and> parseFloat perUnit \<noteq> NaN
            then Inr (JNum (parseFloat perUnit))
            else Inl (Error ''Could not parse API response''))"
      using h by (simp add: mastercard_normalize_def)
    show "fst (getMastercardRate e d b q amount w) =
                (if truthy converted \<and> parseFloat converted \<noteq> NaN \<and> num_pos amount
                 then Inr (JNum (num_div (parseFloat converted) amount))
                 else if truthy perUnit \<and> parseFloat perUnit \<noteq> NaN
                 then Inr (JNum (parseFloat perUnit))
                 else Inl (Error ''Failed to fetch Mastercard rate from API''))"
      unfolding miss mc_miss_result via norm by auto
  }
  {
    assume "(\<exists>x. http e (length (requests w)) (MastercardGet d b q amount) = Inl x)
          \<or> (\<exists>body. http e (length (requests w)) (MastercardGet d b q amount) = Inr body
               \<and> (\<not> truthy body \<or> (\<exists>data. get_prop body ''data'' = Inr data \<and> \<not> truthy data)))"
    then have "fst (getMastercardRateViaAPI e d b q amount w) = Inr JNull"
      by (rule viaAPI_no_data)
    then show "fst (getMastercardRate e d b q amount w)
                = Inl (Error ''Failed to fetch Mastercard rate from API'')"
      unfolding miss mc_miss_result by simp
  }
qed

theorem mastercard_preference_order_witness:
  "fst (getMastercardRate mastercard_answers ''2024-03-01'' ''EUR'' ''USD'' (Fin 100) initial_world)
     = Inr (JNum (Fin 1.075))
   \<and> fst (getMastercardRate mastercard_answers ''2024-03-01'' ''EUR'' ''USD'' (Fin 0) initial_world)
     = Inr (JNum (Fin 1.08))
   \<and> fst (getMastercardRate (offline_at 0) ''2024-03-01'' ''EUR'' ''USD'' (Fin 1) initial_world)
     = Inl (Error ''Failed to fetch Mastercard rate from API'')"
proof -
  let ?data = "JObj [(''crdhldBillAmt'', JStr ''107.50''), (''conversionRate'', JStr ''1.08'')]"
  have h1: "mc_cache initial_world (getCacheKey e ''2024-03-01'' ''EUR'' ''USD'' amount) = None" for e amount
    by (simp add: initial_world_def)
  have h2: "http mastercard_answers (length (requests initial_world))
              (MastercardGet ''2024-03-01'' ''EUR'' ''USD'' amount) = Inr (JObj [(''data'', ?data)])" for amount
    by (simp add: mastercard_answers_def)
  have h3: "http (offline_at 0) (length (requests initial_world))
              (MastercardGet ''2024-03-01'' ''EUR'' ''USD'' (Fin 1)) = Inl (AxiosError None ''Network Error'')"
    by (simp add: offline_at_def)
  have r1: "fst (getMastercardRate mastercard_answers ''2024-03-01'' ''EUR'' ''USD'' (Fin 100) initial_world)
     = Inr (JNum (Fin 1.075))"
    using mastercard_preference_order[OF h1, where e = mastercard_answers and amount = "Fin 100"
        and body = "JObj [(''data'', ?data)]" and data = ?data
        and converted = "JStr ''107.50''" and perUnit = "JStr ''1.08''"] h2
    by (simp add: parse_107_50 parse_1_08)
  have r2: "fst (getMastercardRate mastercard_answers ''2024-03-01'' ''EUR'' ''USD'' (Fin 0) initial_world)
     = Inr (JNum (Fin 1.08))"
    using mastercard_preference_order[OF h1, where e = mastercard_answers and amount = "Fin 0"
        and body = "JObj [(''data'', ?data)]" and data = ?data
        and converted = "JStr ''107.50''" and perUnit = "JStr ''1.08''"] h2
    by (simp add: parse_107_50 parse_1_08)
  have r3: "fst (getMastercardRate (offline_at 0) ''2024-03-01'' ''EUR'' ''USD'' (Fin 1) initial_world)
     = Inl (Error ''Failed to fetch Mastercard rate from API'')"
    using mastercard_preference_order[OF h1, where e = "offline_at 0" and amount = "Fin 1"] h3
    by simp
  from r1 r2 r3 show ?thesis by blast
qed

text \<open>
  C8 as the specification has it, on a response whose converted amount is the number 0
  and whose stated rate is 1.08, for the amount 100: the converted amount is present and
  parses (as 0), the amount is positive, and the lookup returns the stated rate 1.08, not
  the converted amount over the amount, which is 0.
\<close>

theorem zero_converted_amount_counterexample:
  "get_prop (JObj [(''crdhldBillAmt'', JNum (Fin 0)), (''conversionRate'', JNum (Fin 1.08))])
      ''crdhldBillAmt'' = Inr (JNum (Fin 0))
   \<and> parseFloat (JNum (Fin 0)) = Fin 0
   \<and> num_pos (Fin 100)
   \<and> num_div (parseFloat (JNum (Fin 0))) (Fin 100) = Fin 0
   \<and> fst (getMastercardRate
            (providers (Inr (mastercard_body (JNum (Fin 0)) (JNum (Fin 1.08))))
               amex_timeout amex_timeout (\<lambda>n. 0))
            ''2024-03-01'' ''EUR'' ''USD'' (Fin 100) initial_world)
       = Inr (JNum (Fin 1.08))
   \<and> fst (getMastercardRate
            (providers (Inr (mastercard_body (JNum (Fin 0)) (JNum (Fin 1.08))))
               amex_timeout amex_timeout (\<lambda>n. 0))
            ''2024-03-01'' ''EUR'' ''USD'' (Fin 100) initial_world)
       \<noteq> Inr (JNum (num_div (parseFloat (JNum (Fin 0))) (Fin 100)))"
  by (simp add: getMastercardRate_def getMastercardRate_miss_def getMastercardRateViaAPI_def io_defs
        providers_def mastercard_body_def mastercard_normalize_def initial_world_def)

subsection \<open>The daily series\<close>

lemma length_dates_between: "length (dates_between c e) = nat (e + 1 - c)"
proof (induction c e rule: dates_between.induct)
  case (1 cursor end_day)
  show ?case
  proof (cases "cursor \<le> end_day")
    case True
    with 1 show ?thesis by (subst dates_between.simps) simp
  next
    case False
    then show ?thesis by (subst dates_between.simps) simp
  qed
qed

lemma length_series_loop: "length (fst (series_loop f ds lastGood w)) = length ds"
  by (induction ds arbitrary: lastGood w) (simp_all add: case_prod_beta Let_def split: sum.splits)

lemma length_date_labels:
  "date_parse e s = Some a \<Longrightarrow> date_parse e t = Some b \<Longrightarrow> a \<le> b \<Longrightarrow>
   length (date_labels e s t) = nat (b - a + 1)"
  by (simp add: date_labels_def length_dates_between add.commute)

text \<open>
  C9. When the start is not after the end, each of the three card-network series has one
  entry for every day from the start to the end, both included, whatever the lookups do.
\<close>

theorem series_length:
  assumes "date_parse e startDate = Some a" and "date_parse e endDate = Some b" and "a \<le> b"
  shows "length (fst (getMastercardSeries e startDate endDate base quote w)) = nat (b - a + 1)
       \<and> length (fst (getVisaSeries e startDate endDate base quote w)) = nat (b - a + 1)
       \<and> length (fst (getAmexSeries e startDate endDate base quote w)) = nat (b - a + 1)"
  using length_date_labels[OF assms]
  by (simp add: getMastercardSeries_def getVisaSeries_def getAmexSeries_def length_series_loop)

lemma iso_day_0228: "iso_day ''2024-02-28'' = Some 19781"
  by code_simp

lemma iso_day_0301: "iso_day ''2024-03-01'' = Some 19783"
  by code_simp

theorem series_length_witness:
  "date_parse (offline_at 0) ''2024-02-28'' = Some 19781
   \<and> date_parse (offline_at 0) ''2024-03-01'' = Some 19783
   \<and> length (fst (getMastercardSeries (offline_at 0) ''2024-02-28'' ''2024-03-01'' ''EUR'' ''USD'' initial_world)) = 3
   \<and> length (fst (getVisaSeries (offline_at 0) ''2024-02-28'' ''2024-03-01'' ''EUR'' ''USD'' initial_world)) = 3
   \<and> length (fst (getAmexSeries (offline_at 0) ''2024-02-28'' ''2024-03-01'' ''EUR'' ''USD'' initial_world)) = 3"
proof -
  have h1: "date_parse (offline_at 0) ''2024-02-28'' = Some 19781"
    by (simp add: offline_at_def iso_day_0228)
  have h2: "date_parse (offline_at 0) ''2024-03-01'' = Some 19783"
    by (simp add: offline_at_def iso_day_0301)
  show ?thesis
    using series_length[OF h1 h2, of "''EUR''" "''USD''" initial_world] h1 h2 by simp
qed

lemma series_loop_leading:
  "i < length ds \<Longrightarrow> list_all (\<lambda>r. \<not> succeeded r) (take (Suc i) (lookups f ds w)) \<Longrightarrow>
   fst (series_loop f ds lastGood w) ! i = lastGood"
proof (induction ds arbitrary: i w)
  case Nil
  then show ?case by simp
next
  case (Cons d ds)
  obtain r w' where step: "f d w = (r, w')" by (cases "f d w")
  from Cons.prems(2) step have fail: "\<not> succeeded r" by simp
  then have here: "fst (series_loop f (d # ds) lastGood w) = lastGood # fst (series_loop f ds lastGood w')"
    using step by (cases r) (simp_all add: succeeded_def case_prod_beta)
  show ?case
  proof (cases i)
    case 0
    then show ?thesis unfolding here by simp
  next
    case (Suc k)
    with Cons.prems step have "k < length ds"
      and "list_all (\<lambda>r. \<not> succeeded r) (take (Suc k) (lookups f ds w'))" by simp_all
    then have "fst (series_loop f ds lastGood w') ! k = lastGood" by (rule Cons.IH)
    with Suc show ?thesis unfolding here by simp
  qed
qed

lemma carry_forward_leading:
  "i < length ls \<Longrightarrow> list_all (\<lambda>d. midMap d = None) (take (Suc i) ls) \<Longrightarrow>
   carry_forward ls midMap v ! i = v"
proof (induction ls arbitrary: i)
  case Nil
  then show ?case by simp
next
  case (Cons d ls)
  then show ?case by (cases i) simp_all
qed

text \<open>
  C2, as the code has it. In the series of each card network (Mastercard, Visa, Amex)
  every position up to which no lookup has returned a number holds \<open>null\<close>. In the
  reference series of the history every position up to which the map has no date holds
  the first value the map has for a later date of the range (\<open>null\<close> only when it has
  none): the leading gap is filled backwards.
\<close>

theorem leading_gap:
  "(i < length (date_labels e startDate endDate)
      \<and> list_all (\<lambda>r. \<not> succeeded r)
           (take (Suc i) (lookups (\<lambda>d. getMastercardRate e d base quote (Fin 1))
                            (date_labels e startDate endDate) w))
      \<longrightarrow> fst (getMastercardSeries e startDate endDate base quote w) ! i = JNull)
   \<and> (i < length (date_labels e startDate endDate)
      \<and> list_all (\<lambda>r. \<not> succeeded r)
           (take (Suc i) (lookups (\<lambda>d. getVisaRate e d base quote (Fin 1))
                            (date_labels e startDate endDate) w))
      \<longrightarrow> fst (getVisaSeries e startDate endDate base quote w) ! i = JNull)
   \<and> (i < length (date_labels e startDate endDate)
      \<and> list_all (\<lambda>r. \<not> succeeded r)
           (take (Suc i) (lookups (\<lambda>d. getAmexRate e d base quote (Fin 1))
                            (date_labels e startDate endDate) w))
      \<longrightarrow> fst (getAmexSeries e startDate endDate base quote w) ! i = JNull)
   \<and> (i < length labels \<and> list_all (\<lambda>d. midMap d = None) (take (Suc i) labels)
      \<longrightarrow> midSeries labels midMap ! i = firstKnown labels midMap)"
  by (simp add: series_loop_leading carry_forward_leading midSeries_def
        getMastercardSeries_def getVisaSeries_def getAmexSeries_def)

lemma parse_0_90: "parseFloat_str ''0.90'' = Fin 0.9"
  by (simp add: parse_defs)

lemma third_day_labels:
  "date_labels third_day_only ''2024-03-01'' ''2024-03-05''
     = [''2024-03-01'', ''2024-03-02'', ''2024-03-03'', ''2024-03-04'', ''2024-03-05'']"
proof -
  have "iso_day ''2024-03-05'' = Some 19787" by code_simp
  moreover have "dates_between 19783 19787
     = [''2024-03-01'', ''2024-03-02'', ''2024-03-03'', ''2024-03-04'', ''2024-03-05'']"
    by code_simp
  ultimately show ?thesis
    by (simp add: date_labels_def third_day_only_def iso_day_0301)
qed

lemma third_day_key:
  "getCacheKey third_day_only d b q (Fin 1) = d @ ''|'' @ b @ ''|'' @ q @ ''|1''"
  by (simp add: getCacheKey_def third_day_only_def whole_one)

lemma third_day_http:
  "http third_day_only n (FrankfurterGet p t) =
     (if p = ''2024-03-03''
      then Inr (frankfurter_body [(''USD'', 1.08), (''JPY'', 162), (''CHF'', 0.96)])
      else Inl (AxiosError (Some 500) ''Request failed with status code 500''))"
  "http third_day_only n (MastercardGet d b q a) =
     (if d = ''2024-03-03''
      then Inr (JObj [(''data'', JObj [(''conversionRate'', JStr ''0.90'')])])
      else Inl (AxiosError (Some 400) ''Request failed with status code 400''))"
  "http third_day_only n (VisaGet d b q a) =
     (if d = ''2024-03-03''
      then Inr (visa_body (JStr ''0.90''))
      else Inl (Error ''page.waitForResponse: Timeout 25000ms exceeded.''))"
  "http third_day_only n (AmexPost m) = Inr (icc_entries (JStr ''2.5''))"
  "http third_day_only n BrowserLaunch = Inr JUndefined"
  "http third_day_only n (PageGoto u) = Inr JUndefined"
  "clock third_day_only k = 0"
  by (simp_all add: third_day_only_def)

lemma third_day_mc_fails:
  "d \<noteq> ''2024-03-03'' \<Longrightarrow> mc_cache w (d @ ''|USD|JPY|1'') = None \<Longrightarrow>
   getMastercardRate third_day_only d ''USD'' ''JPY'' (Fin 1) w
     = (Inl (Error ''Failed to fetch Mastercard rate from API''),
        w\<lparr>requests := requests w @ [MastercardGet d ''USD'' ''JPY'' (Fin 1)]\<rparr>)"
  by (simp add: getMastercardRate_def getMastercardRate_miss_def getMastercardRateViaAPI_def io_defs
        third_day_key third_day_http)

lemma third_day_mc_succeeds:
  "mc_cache w ''2024-03-03|USD|JPY|1'' = None \<Longrightarrow>
   getMastercardRate third_day_only ''2024-03-03'' ''USD'' ''JPY'' (Fin 1) w
     = (Inr (JNum (Fin 0.9)),
        w\<lparr>requests := requests w @ [MastercardGet ''2024-03-03'' ''USD'' ''JPY'' (Fin 1)],
          console := console w @
            [(''Mastercard'', rate_params ''2024-03-03'' ''USD'' ''JPY'' (Fin 1),
              JObj [(''data'', JObj [(''conversionRate'', JStr ''0.90'')])])],
          clock_reads := Suc (clock_reads w),
          mc_cache := (mc_cache w)(''2024-03-03|USD|JPY|1''
                         \<mapsto> \<lparr>val = JNum (Fin 0.9), timestamp = 0\<rparr>)\<rparr>)"
  by (simp add: getMastercardRate_def getMastercardRate_miss_def getMastercardRateViaAPI_def io_defs
        third_day_key third_day_http mastercard_normalize_def parse_0_90)

lemma third_day_visa_fails:
  "d \<noteq> ''2024-03-03'' \<Longrightarrow> visa_cache w (d @ ''|USD|JPY|1'') = None \<Longrightarrow>
   getVisaRate third_day_only d ''USD'' ''JPY'' (Fin 1) w
     = (Inl (Error ''Failed to fetch Visa rate from Playwright''),
        w\<lparr>requests := requests w
             @ (if visa_page w then [] else [BrowserLaunch, PageGoto VISA_URL])
             @ [VisaGet d ''USD'' ''JPY'' (Fin 1)],
          visa_page := True\<rparr>)"
  by (cases "visa_page w")
     (simp_all add: getVisaRate_def getVisaRate_miss_def getVisaRateViaPlaywright_def
        ensureBrowser_visa_def io_defs third_day_key third_day_http)

lemma third_day_visa_succeeds:
  "visa_cache w ''2024-03-03|USD|JPY|1'' = None \<Longrightarrow>
   getVisaRate third_day_only ''2024-03-03'' ''USD'' ''JPY'' (Fin 1) w
     = (Inr (JNum (Fin 0.9)),
        w\<lparr>requests := requests w
             @ (if visa_page w then [] else [BrowserLaunch, PageGoto VISA_URL])
             @ [VisaGet ''2024-03-03'' ''USD'' ''JPY'' (Fin 1)],
          console := console w @
            [(''Visa'', rate_params ''2024-03-03'' ''USD'' ''JPY'' (Fin 1), visa_body (JStr ''0.90''))],
          clock_reads := Suc (clock_reads w),
          visa_cache := (visa_cache w)(''2024-03-03|USD|JPY|1''
                         \<mapsto> \<lparr>val = JNum (Fin 0.9), timestamp = 0\<rparr>),
          visa_page := True\<rparr>)"
  by (cases "visa_page w")
     (simp_all add: getVisaRate_def getVisaRate_miss_def getVisaRateViaPlaywright_def
        ensureBrowser_visa_def io_defs third_day_key third_day_http visa_body_def
        visa_normalize_def parse_0_90)

lemma third_day_amex_fails:
  "d \<noteq> ''2024-03-03'' \<Longrightarrow> amex_cache w (d @ ''|USD|JPY'') = None \<Longrightarrow>
   getAmexRate third_day_only d ''USD'' ''JPY'' (Fin 1) w
     = (Inr JNull,
        w\<lparr>requests := requests w
             @ (if amex_page w then [] else [BrowserLaunch, PageGoto AMEX_URL])
             @ [FrankfurterGet d ''USD,JPY''],
          amex_page := True\<rparr>)"
  by (cases "amex_page w")
     (simp_all add: getAmexRate_def getAmexRate_miss_def getAmexRateViaPlaywright_def
        ensureBrowser_amex_def getCacheKey_amex_def getMidMarketRate_def io_defs
        third_day_http)

lemma third_day_amex_succeeds:
  "amex_cache w ''2024-03-03|USD|JPY'' = None \<Longrightarrow>
   getAmexRate third_day_only ''2024-03-03'' ''USD'' ''JPY'' (Fin 1) w
     = (Inr (JNum (Fin 153.75)),
        w\<lparr>requests := requests w
             @ (if amex_page w then [] else [BrowserLaunch, PageGoto AMEX_URL])
             @ [FrankfurterGet ''2024-03-03'' ''USD,JPY'', AmexPost ''ICC''],
          console := console w @
            [(''Mid'', mid_params ''2024-03-03'' ''USD'' ''JPY'',
              frankfurter_body [(''USD'', 1.08), (''JPY'', 162), (''CHF'', 0.96)]),
             (''Amex'', amex_params ''2024-03-03'' ''USD'' ''JPY'' ''ICC'' (Fin 1),
              icc_entries (JStr ''2.5''))],
          clock_reads := Suc (clock_reads w),
          amex_cache := (amex_cache w)(''2024-03-03|USD|JPY''
                         \<mapsto> \<lparr>val = JNum (Fin 153.75), timestamp = 0\<rparr>),
          amex_page := True\<rparr>)"
  by (cases "amex_page w")
     (simp_all add: getAmexRate_def getAmexRate_miss_def getAmexRateViaPlaywright_def
        ensureBrowser_amex_def getCacheKey_amex_def getMidMarketRate_def io_defs cross_rate_def
        rate_of_def frankfurter_body_def js_div_def market_usd normalize_usd_jpy
        third_day_http parse_2_5)

lemmas third_day =
  third_day_mc_fails third_day_mc_succeeds third_day_visa_fails third_day_visa_succeeds
  third_day_amex_fails third_day_amex_succeeds

theorem leading_gap_witness:
  "list_all (\<lambda>r. \<not> succeeded r)
     (take (Suc 1) (lookups (\<lambda>d. getMastercardRate third_day_only d ''USD'' ''JPY'' (Fin 1))
        (date_labels third_day_only ''2024-03-01'' ''2024-03-05'') initial_world))
   \<and> fst (getMastercardSeries third_day_only ''2024-03-01'' ''2024-03-05'' ''USD'' ''JPY'' initial_world) ! 1
       = JNull
   \<and> fst (getMastercardSeries third_day_only ''2024-03-01'' ''2024-03-05'' ''USD'' ''JPY'' initial_world)
       = [JNull, JNull, JNum (Fin 0.9), JNum (Fin 0.9), JNum (Fin 0.9)]
   \<and> list_all (\<lambda>r. \<not> succeeded r)
     (take (Suc 1) (lookups (\<lambda>d. getVisaRate third_day_only d ''USD'' ''JPY'' (Fin 1))
        (date_labels third_day_only ''2024-03-01'' ''2024-03-05'') initial_world))
   \<and> fst (getVisaSeries third_day_only ''2024-03-01'' ''2024-03-05'' ''USD'' ''JPY'' initial_world) ! 1
       = JNull
   \<and> fst (getVisaSeries third_day_only ''2024-03-01'' ''2024-03-05'' ''USD'' ''JPY'' initial_world)
       = [JNull, JNull, JNum (Fin 0.9), JNum (Fin 0.9), JNum (Fin 0.9)]
   \<and> list_all (\<lambda>r. \<not> succeeded r)
     (take (Suc 1) (lookups (\<lambda>d. getAmexRate third_day_only d ''USD'' ''JPY'' (Fin 1))
        (date_labels third_day_only ''2024-03-01'' ''2024-03-05'') initial_world))
   \<and> fst (getAmexSeries third_day_only ''2024-03-01'' ''2024-03-05'' ''USD'' ''JPY'' initial_world) ! 1
       = JNull
   \<and> fst (getAmexSeries third_day_only ''2024-03-01'' ''2024-03-05'' ''USD'' ''JPY'' initial_world)
       = [JNull, JNull, JNum (Fin 153.75), JNum (Fin 153.75), JNum (Fin 153.75)]
   \<and> list_all (\<lambda>d. [''2024-03-03'' \<mapsto> JNum (Fin 0.9)] d = None)
        (take (Suc 1) [''2024-03-01'', ''2024-03-02'', ''2024-03-03'', ''2024-03-04'', ''2024-03-05''])
   \<and> midSeries [''2024-03-01'', ''2024-03-02'', ''2024-03-03'', ''2024-03-04'', ''2024-03-05'']
        [''2024-03-03'' \<mapsto> JNum (Fin 0.9)] ! 1
       = JNum (Fin 0.9)"
proof -
  let ?e = third_day_only
  let ?ds = "[''2024-03-01'', ''2024-03-02'', ''2024-03-03'', ''2024-03-04'', ''2024-03-05'']"
  let ?ls = "date_labels ?e ''2024-03-01'' ''2024-03-05''"
  let ?m = "[''2024-03-03'' \<mapsto> JNum (Fin (0.9::real))]"
  have len: "1 < length ?ls" by (simp add: third_day_labels)
  have hm: "list_all (\<lambda>r. \<not> succeeded r)
              (take (Suc 1) (lookups (\<lambda>d. getMastercardRate ?e d ''USD'' ''JPY'' (Fin 1)) ?ls initial_world))"
    unfolding third_day_labels by (simp add: third_day initial_world_def succeeded_def)
  have hv: "list_all (\<lambda>r. \<not> succeeded r)
              (take (Suc 1) (lookups (\<lambda>d. getVisaRate ?e d ''USD'' ''JPY'' (Fin 1)) ?ls initial_world))"
    unfolding third_day_labels by (simp add: third_day initial_world_def succeeded_def)
  have ha: "list_all (\<lambda>r. \<not> succeeded r)
              (take (Suc 1) (lookups (\<lambda>d. getAmexRate ?e d ''USD'' ''JPY'' (Fin 1)) ?ls initial_world))"
    unfolding third_day_labels by (simp add: third_day initial_world_def succeeded_def)
  have hr: "list_all (\<lambda>d. ?m d = None) (take (Suc 1) ?ds)"
    by simp
  have am: "fst (getMastercardSeries ?e ''2024-03-01'' ''2024-03-05'' ''USD'' ''JPY'' initial_world)
       = [JNull, JNull, JNum (Fin 0.9), JNum (Fin 0.9), JNum (Fin 0.9)]"
    unfolding getMastercardSeries_def third_day_labels by (simp add: third_day initial_world_def)
  have av: "fst (getVisaSeries ?e ''2024-03-01'' ''2024-03-05'' ''USD'' ''JPY'' initial_world)
       = [JNull, JNull, JNum (Fin 0.9), JNum (Fin 0.9), JNum (Fin 0.9)]"
    unfolding getVisaSeries_def third_day_labels by (simp add: third_day initial_world_def)
  have aa: "fst (getAmexSeries ?e ''2024-03-01'' ''2024-03-05'' ''USD'' ''JPY'' initial_world)
       = [JNull, JNull, JNum (Fin 153.75), JNum (Fin 153.75), JNum (Fin 153.75)]"
    unfolding getAmexSeries_def third_day_labels by (simp add: third_day initial_world_def)
  have fk: "firstKnown ?ds ?m = JNum (Fin 0.9)"
    by simp
  note gap = leading_gap[of 1 ?e "''2024-03-01''" "''2024-03-05''" "''USD''" "''JPY''" initial_world ?ds ?m]
  have cm: "fst (getMastercardSeries ?e ''2024-03-01'' ''2024-03-05'' ''USD'' ''JPY'' initial_world) ! 1 = JNull"
    using gap[THEN conjunct1] len hm by blast
  have cv: "fst (getVisaSeries ?e ''2024-03-01'' ''2024-03-05'' ''USD'' ''JPY'' initial_world) ! 1 = JNull"
    using gap[THEN conjunct2, THEN conjunct1] len hv by blast
  have ca: "fst (getAmexSeries ?e ''2024-03-01'' ''2024-03-05'' ''USD'' ''JPY'' initial_world) ! 1 = JNull"
    using gap[THEN conjunct2, THEN conjunct2, THEN conjunct1] len ha by blast
  have "midSeries ?ds ?m ! 1 = firstKnown ?ds ?m"
    using gap[THEN conjunct2, THEN conjunct2, THEN conjunct2] hr by simp
  then have cr: "midSeries ?ds ?m ! 1 = JNum (Fin 0.9)"
    unfolding fk .
  from hm cm am hv cv av ha ca aa hr cr show ?thesis by blast
qed

text \<open>
  C2 as the specification has it, on the reference series: the map has no rate for the
  first two days and 0.90 for the third, and the first two positions are 0.90, not \<open>null\<close>.
\<close>

theorem mid_series_leading_gap_counterexample:
  "midSeries [''2024-03-01'', ''2024-03-02'', ''2024-03-03'', ''2024-03-04'', ''2024-03-05'']
     [''2024-03-03'' \<mapsto> JNum (Fin 0.9)]
     = [JNum (Fin 0.9), JNum (Fin 0.9), JNum (Fin 0.9), JNum (Fin 0.9), JNum (Fin 0.9)]
   \<and> midSeries [''2024-03-01'', ''2024-03-02'', ''2024-03-03'', ''2024-03-04'', ''2024-03-05'']
     [''2024-03-03'' \<mapsto> JNum (Fin 0.9)]
     \<noteq> [JNull, JNull, JNum (Fin 0.9), JNum (Fin 0.9), JNum (Fin 0.9)]"
  by (simp add: midSeries_def)

subsection \<open>American Express\<close>

lemma same_but_console:
  "w1\<lparr>console := c\<rparr> = w2\<lparr>console := c\<rparr> \<Longrightarrow>
   requests w1 = requests w2 \<and> clock_reads w1 = clock_reads w2 \<and> mc_cache w1 = mc_cache w2
   \<and> visa_cache w1 = visa_cache w2 \<and> amex_cache w1 = amex_cache w2
   \<and> visa_page w1 = visa_page w2 \<and> amex_page w1 = amex_page w2"
  by (cases w1, cases w2) simp

lemma amex_via_amount:
  "fst (getAmexRateViaPlaywright e d b q a1 w) = fst (getAmexRateViaPlaywright e d b q a2 w)
   \<and> (snd (getAmexRateViaPlaywright e d b q a1 w))\<lparr>console := c\<rparr>
     = (snd (getAmexRateViaPlaywright e d b q a2 w))\<lparr>console := c\<rparr>"
  by (simp add: getAmexRateViaPlaywright_def io_defs split: sum.splits prod.splits)

lemma amex_miss_amount:
  "fst (getAmexRate_miss e d b q a1 w) = fst (getAmexRate_miss e d b q a2 w)
   \<and> (snd (getAmexRate_miss e d b q a1 w))\<lparr>console := c\<rparr>
     = (snd (getAmexRate_miss e d b q a2 w))\<lparr>console := c\<rparr>"
proof -
  obtain r1 w1 where v1: "getAmexRateViaPlaywright e d b q a1 w = (r1, w1)"
    by (cases "getAmexRateViaPlaywright e d b q a1 w")
  obtain r2 w2 where v2: "getAmexRateViaPlaywright e d b q a2 w = (r2, w2)"
    by (cases "getAmexRateViaPlaywright e d b q a2 w")
  from amex_via_amount[of e d b q a1 w a2 c] v1 v2
  have r: "r1 = r2" and w: "w1\<lparr>console := c\<rparr> = w2\<lparr>console := c\<rparr>" by simp_all
  from same_but_console[OF w] have f: "clock_reads w1 = clock_reads w2" "amex_cache w1 = amex_cache w2"
    by simp_all
  have upd: "w1\<lparr>clock_reads := n, amex_cache := m, console := c\<rparr>
           = w2\<lparr>clock_reads := n, amex_cache := m, console := c\<rparr>" for n m
    using w by (cases w1, cases w2) simp
  show ?thesis
    using r w f upd
    by (cases r2) (simp_all add: getAmexRate_miss_def io_defs v1 v2)
qed

text \<open>
  C10. The amount given to \<open>getAmexRate\<close> has no influence on what it returns nor on the
  world it leaves (the cache, whose key has no amount, the requests sent, the clock), but
  for the console, where the amount is logged.
\<close>

theorem amex_amount_independence:
  "fst (getAmexRate e date base quote a1 w) = fst (getAmexRate e date base quote a2 w)
   \<and> (snd (getAmexRate e date base quote a1 w))\<lparr>console := []\<rparr>
     = (snd (getAmexRate e date base quote a2 w))\<lparr>console := []\<rparr>"
  using amex_miss_amount[of e date base quote a1 _ a2 "[]"]
  by (simp add: getAmexRate_def io_defs split: option.splits)

lemma amex_via_never_throws: "\<exists>v. fst (getAmexRateViaPlaywright e d b q a w) = Inr v"
  by (simp add: getAmexRateViaPlaywright_def io_catch_def io_return_def split: sum.splits prod.splits)

lemma amex_miss_never_throws: "\<exists>v. fst (getAmexRate_miss e d b q a w) = Inr v"
  using amex_via_never_throws[of e d b q a w]
  by (auto simp add: getAmexRate_miss_def io_defs split: sum.splits prod.splits)

lemma amex_never_throws: "\<exists>v. fst (getAmexRate e d b q a w) = Inr v"
  using amex_miss_never_throws
  by (simp add: getAmexRate_def io_defs split: option.splits)

lemma mid_usd_jpy:
  "getMidMarketRate (amex_answers r) d ''USD'' ''JPY'' w
     = (Inr (JNum (Fin 150)),
        w\<lparr>requests := requests w @ [FrankfurterGet d ''USD,JPY''],
          console := console w @ [(''Mid'', mid_params d ''USD'' ''JPY'',
             frankfurter_body [(''USD'', 1.08), (''JPY'', 162), (''CHF'', 0.96)])]\<rparr>)"
  by (simp add: getMidMarketRate_def io_defs cross_rate_def rate_of_def amex_answers_def
        frankfurter_body_def js_div_def)

lemma mid_jpy_chf:
  "fst (getMidMarketRate (amex_answers r) d ''JPY'' ''CHF'' w) = Inr (JNum (Fin (0.96 / 162)))"
  by (simp add: getMidMarketRate_def io_defs cross_rate_def rate_of_def amex_answers_def
        frankfurter_body_def js_div_def)

lemma parse_N_A: "parseFloat_str ''N/A'' = NaN"
  by (simp add: parse_defs)

lemma market_jpy: "market_of ''JPY'' = ''ICC''"
  by (simp add: market_of_def currencyToCountry_def)

lemma normalize_jpy_chf:
  "amex_normalize (icc_entries v) ''ICC'' ''JPY'' ''CHF'' ecb = Inr JNull"
  by (simp add: icc_entries_def amex_icc_def amex_apply_variance_def prop_is_def)

lemmas amex_run_defs =
  getAmexRate_def getAmexRate_miss_def getAmexRateViaPlaywright_def ensureBrowser_amex_def
  getCacheKey_amex_def initial_world_def

text \<open>
  C4, at an input where the code departs from it. The pair USD/JPY is priced from the
  dollar entry of the ICC market. When the variance of the yen is missing there, the
  lookup returns \<open>null\<close>; when it is the string ``N/A'', the lookup returns NaN, and stores
  it in the cache.
\<close>

theorem amex_non_numeric_variance_gives_NaN:
  "fst (getAmexRate (amex_answers (Inr (icc_entries JUndefined)))
          ''2024-03-01'' ''USD'' ''JPY'' (Fin 1) initial_world) = Inr JNull
   \<and> fst (getAmexRate (amex_answers (Inr (icc_entries (JStr ''N/A''))))
          ''2024-03-01'' ''USD'' ''JPY'' (Fin 1) initial_world) = Inr (JNum NaN)
   \<and> amex_cache (snd (getAmexRate (amex_answers (Inr (icc_entries (JStr ''N/A''))))
          ''2024-03-01'' ''USD'' ''JPY'' (Fin 1) initial_world))
        (getCacheKey_amex ''2024-03-01'' ''USD'' ''JPY'')
      = Some \<lparr>val = JNum NaN, timestamp = 0\<rparr>"
proof -
  have post: "http (amex_answers r) n (AmexPost m) = r" 
    and browser: "http (amex_answers r) n BrowserLaunch = Inr JUndefined"
      "http (amex_answers r) n (PageGoto u) = Inr JUndefined"
    and clk: "clock (amex_answers r) n = 0" for r n m u
    by (simp_all add: amex_answers_def)
  show ?thesis
    by (simp add: amex_run_defs io_defs mid_usd_jpy market_usd normalize_usd_jpy post browser clk
          parse_N_A)
qed

text \<open>
  C3, at an input where the code departs from it. With the provider in reach the pair
  USD/JPY has a rate (150 raised by 2.5 percent). When the request to the provider times
  out, the lookup of that pair returns \<open>null\<close>: what it returns for JPY/CHF, a pair the
  provider does not price.
\<close>

theorem amex_failure_looks_unsupported:
  "fst (getAmexRate (amex_answers (Inr (icc_entries (JStr ''2.5''))))
          ''2024-03-01'' ''USD'' ''JPY'' (Fin 1) initial_world) = Inr (JNum (Fin 153.75))
   \<and> fst (getAmexRate (amex_answers amex_timeout)
          ''2024-03-01'' ''USD'' ''JPY'' (Fin 1) initial_world) = Inr JNull
   \<and> fst (getAmexRate (amex_answers (Inr (icc_entries (JStr ''2.5''))))
          ''2024-03-01'' ''JPY'' ''CHF'' (Fin 1) initial_world) = Inr JNull"
proof -
  have post: "http (amex_answers r) n (AmexPost m) = r" 
    and browser: "http (amex_answers r) n BrowserLaunch = Inr JUndefined"
      "http (amex_answers r) n (PageGoto u) = Inr JUndefined"
    and clk: "clock (amex_answers r) n = 0" for r n m u
    by (simp_all add: amex_answers_def)
  have priced: "fst (getAmexRate (amex_answers (Inr (icc_entries (JStr ''2.5''))))
          ''2024-03-01'' ''USD'' ''JPY'' (Fin 1) initial_world) = Inr (JNum (Fin 153.75))"
    by (simp add: amex_run_defs io_defs mid_usd_jpy market_usd normalize_usd_jpy post browser clk
          parse_2_5)
  have failed: "fst (getAmexRate (amex_answers amex_timeout)
          ''2024-03-01'' ''USD'' ''JPY'' (Fin 1) initial_world) = Inr JNull"
    by (simp add: amex_run_defs io_defs mid_usd_jpy market_usd post browser clk amex_timeout_def)
  have unsupported: "fst (getAmexRate (amex_answers (Inr (icc_entries (JStr ''2.5''))))
          ''2024-03-01'' ''JPY'' ''CHF'' (Fin 1) initial_world) = Inr JNull"
    using mid_jpy_chf[of "Inr (icc_entries (JStr ''2.5''))" "''2024-03-01''"]
    by (simp add: amex_run_defs io_defs market_jpy normalize_jpy_chf post browser clk
          split: prod.splits sum.splits)
  from priced failed unsupported show ?thesis by blast
qed

subsection \<open>The aggregated response\<close>

lemma rejection_mem: "x \<in> set (List.map_filter rejection rs) \<Longrightarrow> Inl x \<in> set rs"
  by (induction rs) (auto simp add: List.map_filter_simps rejection_def split: sum.splits)

lemma first_rejection_mem: "first_rejection order rs = Some x \<Longrightarrow> Inl x \<in> set rs"
proof (induction order)
  case Nil
  then have "x \<in> set (List.map_filter rejection rs)"
    by (cases "List.map_filter rejection rs") simp_all
  then show ?case by (rule rejection_mem)
next
  case (Cons i order)
  show ?case
  proof (cases "i < length rs \<and> rejection (rs ! i) = Some x")
    case True
    then have "rs ! i = Inl x" by (cases "rs ! i") (simp_all add: rejection_def)
    with True show ?thesis by (metis nth_mem)
  next
    case False
    with Cons show ?thesis by (auto split: option.splits if_splits)
  qed
qed

lemma first_rejection_some: "Inl x \<in> set rs \<Longrightarrow> \<exists>y. first_rejection order rs = Some y"
proof (induction order)
  case Nil
  then have "List.map_filter rejection rs \<noteq> []"
    by (induction rs) (auto simp add: List.map_filter_simps rejection_def split: sum.splits)
  then show ?case by (cases "List.map_filter rejection rs") simp_all
next
  case (Cons i order)
  then show ?case by (auto split: option.splits)
qed

lemma first_rejection_none:
  "first_rejection order [Inr m, Inr c, Inr v, Inr a] = None"
proof (cases "first_rejection order [Inr m, Inr c, Inr v, Inr a :: error + jsval]")
  case None
  then show ?thesis .
next
  case (Some x)
  then have "Inl x \<in> set [Inr m, Inr c, Inr v, Inr a :: error + jsval]" by (rule first_rejection_mem)
  then show ?thesis by simp
qed

lemma rates_body_rates:
  "get_prop (rates_body date base quote amount m c v a midY mcY visaY amexY) ''mid'' = Inr m"
  "get_prop (rates_body date base quote amount m c v a midY mcY visaY amexY) ''mc'' = Inr c"
  "get_prop (rates_body date base quote amount m c v a midY mcY visaY amexY) ''visa'' = Inr v"
  "get_prop (rates_body date base quote amount m c v a midY mcY visaY amexY) ''amex'' = Inr a"
  by (simp_all add: rates_body_def Let_def)

lemma lookups_of_day_amex: "fst (lookups_of_day e date base quote amount w) = (mid, mc, visa, amex) \<Longrightarrow> \<exists>a. amex = Inr a"
proof -
  assume h: "fst (lookups_of_day e date base quote amount w) = (mid, mc, visa, amex)"
  obtain r1 w1 where s1: "getMidMarketRate e date base quote w = (r1, w1)"
    by (cases "getMidMarketRate e date base quote w")
  obtain r2 w2 where s2: "getMastercardRate e date base quote amount w1 = (r2, w2)"
    by (cases "getMastercardRate e date base quote amount w1")
  obtain r3 w3 where s3: "getVisaRate e date base quote amount w2 = (r3, w3)"
    by (cases "getVisaRate e date base quote amount w2")
  from h s1 s2 s3 have "amex = fst (getAmexRate e date base quote amount w3)"
    by (simp add: lookups_of_day_def case_prod_beta)
  then show ?thesis using amex_never_throws[of e date base quote amount w3] by simp
qed

lemma api_rates_joined:
  assumes "q_date q = Some date" and "q_base q = Some base" and "q_quote q = Some quote"
    and "date_format_ok date" and "currency_format_ok base" and "currency_format_ok quote"
    and "date_parse e date = Some day"
    and "fst (lookups_of_day e date base quote (parse_amount (q_amount q)) w) = (mid, mc, visa, amex)"
    and "fst (lookups_of_day e (iso_date (day - 1)) base quote (parse_amount (q_amount q))
               (snd (lookups_of_day e date base quote (parse_amount (q_amount q)) w)))
           = (midY, mcY, visaY, amexY)"
  shows "fst (api_rates e q w) =
           rates_join (settle_order e) date base quote (parse_amount (q_amount q))
             mid mc visa amex midY mcY visaY amexY"
proof -
  have present: "\<not> absent (q_date q)" "\<not> absent (q_base q)" "\<not> absent (q_quote q)"
    using assms(1-6) by (auto simp add: absent_def date_format_ok_def currency_format_ok_def)
  show ?thesis
    using present assms by (simp add: api_rates_def Let_def case_prod_beta)
qed

text \<open>
  C1, as the code has it, on a well-formed request to \<open>GET /api/rates\<close>. The Amex lookup
  never throws. When the reference, Mastercard or Visa lookup of the requested day throws,
  the handler answers 500 with the message of the one of these failures that settled
  first, and no rate. When the four lookups of the day return, it answers 200 with the
  four rates as they were fetched, whether the lookups of the day before returned or threw.
\<close>

theorem aggregated_response_all_or_nothing:
  assumes "q_date q = Some date" and "q_base q = Some base" and "q_quote q = Some quote"
    and "date_format_ok date" and "currency_format_ok base" and "currency_format_ok quote"
    and "date_parse e date = Some day"
    and "amount = parse_amount (q_amount q)"
    and "fst (lookups_of_day e date base quote amount w) = (mid, mc, visa, amex)"
    and "fst (lookups_of_day e (iso_date (day - 1)) base quote amount
               (snd (lookups_of_day e date base quote amount w)))
           = (midY, mcY, visaY, amexY)"
  shows "(\<exists>a. amex = Inr a)
   \<and> ((\<exists>x. mid = Inl x) \<or> (\<exists>x. mc = Inl x) \<or> (\<exists>x. visa = Inl x) \<longrightarrow>
        (\<exists>x. (mid = Inl x \<or> mc = Inl x \<or> visa = Inl x)
             \<and> first_rejection (settle_order e) [mid, mc, visa, amex] = Some x
             \<and> fst (api_rates e q w) = failed_to_fetch_rates x))
   \<and> (mid = Inr m \<and> mc = Inr c \<and> visa = Inr v \<and> amex = Inr a \<longrightarrow>
        fst (api_rates e q w)
          = Response 200 (rates_body date base quote amount m c v a
              (catch_null midY) (catch_null mcY) (catch_null visaY) (catch_null amexY))
        \<and> get_prop (rates_body date base quote amount m c v a
              (catch_null midY) (catch_null mcY) (catch_null visaY) (catch_null amexY)) ''mid'' = Inr m
        \<and> get_prop (rates_body date base quote amount m c v a
              (catch_null midY) (catch_null mcY) (catch_null visaY) (catch_null amexY)) ''mc'' = Inr c
        \<and> get_prop (rates_body date base quote amount m c v a
              (catch_null midY) (catch_null mcY) (catch_null visaY) (catch_null amexY)) ''visa'' = Inr v
        \<and> get_prop (rates_body date base quote amount m c v a
              (catch_null midY) (catch_null mcY) (catch_null visaY) (catch_null amexY)) ''amex'' = Inr a)"
proof -
  have joined: "fst (api_rates e q w) =
           rates_join (settle_order e) date base quote amount mid mc visa amex midY mcY visaY amexY"
    using api_rates_joined[OF assms(1-7)] assms(8-10) by simp
  from assms(9) obtain a' where amex: "amex = Inr a'"
    using lookups_of_day_amex by blast
  have failed: "\<exists>x. (mid = Inl x \<or> mc = Inl x \<or> visa = Inl x)
             \<and> first_rejection (settle_order e) [mid, mc, visa, amex] = Some x
             \<and> fst (api_rates e q w) = failed_to_fetch_rates x"
    if "(\<exists>x. mid = Inl x) \<or> (\<exists>x. mc = Inl x) \<or> (\<exists>x. visa = Inl x)"
  proof -
    from that obtain x where "Inl x \<in> set [mid, mc, visa, amex]" by auto
    then obtain y where y: "first_rejection (settle_order e) [mid, mc, visa, amex] = Some y"
      using first_rejection_some by blast
    then have "Inl y \<in> set [mid, mc, visa, amex]" by (rule first_rejection_mem)
    with amex have "mid = Inl y \<or> mc = Inl y \<or> visa = Inl y" by auto
    moreover have "fst (api_rates e q w) = failed_to_fetch_rates y"
      unfolding joined using y by (simp add: rates_join_def)
    ultimately show ?thesis using y by blast
  qed
  have ok: "fst (api_rates e q w)
          = Response 200 (rates_body date base quote amount m c v a
              (catch_null midY) (catch_null mcY) (catch_null visaY) (catch_null amexY))"
    if "mid = Inr m \<and> mc = Inr c \<and> visa = Inr v \<and> amex = Inr a"
    unfolding joined using that by (simp add: rates_join_def first_rejection_none fulfilled_def)
  from amex failed ok show ?thesis
    by (simp add: rates_body_rates)
qed

lemma providers_http:
  "http (providers m v a t) n (FrankfurterGet p c)
     = Inr (frankfurter_body [(''USD'', 1.08), (''JPY'', 162), (''CHF'', 0.96)])"
  "http (providers m v a t) n (MastercardGet d b q x) = m"
  "http (providers m v a t) n (VisaGet d b q x) = v"
  "http (providers m v a t) n (AmexPost k) = a"
  "http (providers m v a t) n BrowserLaunch = Inr JUndefined"
  "http (providers m v a t) n (PageGoto u) = Inr JUndefined"
  "clock (providers m v a t) = t"
  "date_parse (providers m v a t) = iso_day"
  "settle_order (providers m v a t) = []"
  by (simp_all add: providers_def)

lemma providers_key:
  "getCacheKey (providers m v a t) d b q (Fin 1) = d @ ''|'' @ b @ ''|'' @ q @ ''|1''"
  by (simp add: getCacheKey_def providers_def whole_one)

lemma day_mid:
  "getMidMarketRate (providers m v a t) d ''USD'' ''JPY'' w
     = (Inr (JNum (Fin 150)),
        w\<lparr>requests := requests w @ [FrankfurterGet d ''USD,JPY''],
          console := console w @ [(''Mid'', mid_params d ''USD'' ''JPY'',
             frankfurter_body [(''USD'', 1.08), (''JPY'', 162), (''CHF'', 0.96)])]\<rparr>)"
  by (simp add: getMidMarketRate_def io_defs cross_rate_def rate_of_def providers_http
        frankfurter_body_def js_div_def)

lemma day_mc_ok:
  "mc_cache w (d @ ''|USD|JPY|1'') = None \<Longrightarrow>
   getMastercardRate (providers (Inr (mastercard_body (JStr ''107.50'') (JStr ''1.08''))) v a t)
       d ''USD'' ''JPY'' (Fin 1) w
     = (Inr (JNum (Fin 107.5)),
        w\<lparr>requests := requests w @ [MastercardGet d ''USD'' ''JPY'' (Fin 1)],
          clock_reads := Suc (clock_reads w),
          console := console w @
            [(''Mastercard'', rate_params d ''USD'' ''JPY'' (Fin 1),
              mastercard_body (JStr ''107.50'') (JStr ''1.08''))],
          mc_cache := (mc_cache w)(d @ ''|USD|JPY|1''
                         \<mapsto> \<lparr>val = JNum (Fin 107.5), timestamp = t (clock_reads w)\<rparr>)\<rparr>)"
  by (simp add: getMastercardRate_def getMastercardRate_miss_def getMastercardRateViaAPI_def io_defs
        providers_key providers_http mastercard_body_def mastercard_normalize_def parse_107_50)

lemma day_mc_down:
  "mc_cache w (d @ ''|USD|JPY|1'') = None \<Longrightarrow>
   getMastercardRate (providers (Inl x) v a t) d ''USD'' ''JPY'' (Fin 1) w
     = (Inl (Error ''Failed to fetch Mastercard rate from API''),
        w\<lparr>requests := requests w @ [MastercardGet d ''USD'' ''JPY'' (Fin 1)]\<rparr>)"
  by (simp add: getMastercardRate_def getMastercardRate_miss_def getMastercardRateViaAPI_def io_defs
        providers_key providers_http)

lemma day_visa_ok:
  "visa_cache w (d @ ''|USD|JPY|1'') = None \<Longrightarrow>
   getVisaRate (providers m (Inr (visa_body (JStr ''1.09''))) a t) d ''USD'' ''JPY'' (Fin 1) w
     = (Inr (JNum (Fin 1.09)),
        w\<lparr>requests := requests w
             @ (if visa_page w then [] else [BrowserLaunch, PageGoto VISA_URL])
             @ [VisaGet d ''USD'' ''JPY'' (Fin 1)],
          clock_reads := Suc (clock_reads w),
          console := console w @
            [(''Visa'', rate_params d ''USD'' ''JPY'' (Fin 1), visa_body (JStr ''1.09''))],
          visa_cache := (visa_cache w)(d @ ''|USD|JPY|1''
                         \<mapsto> \<lparr>val = JNum (Fin 1.09), timestamp = t (clock_reads w)\<rparr>),
          visa_page := True\<rparr>)"
  by (cases "visa_page w")
     (simp_all add: getVisaRate_def getVisaRate_miss_def getVisaRateViaPlaywright_def
        ensureBrowser_visa_def io_defs providers_key providers_http visa_body_def
        visa_normalize_def parse_1_09)

lemma day_amex_ok:
  "amex_cache w (d @ ''|USD|JPY'') = None \<Longrightarrow>
   getAmexRate (providers m v (Inr (icc_entries (JStr ''2.5''))) t) d ''USD'' ''JPY'' (Fin 1) w
     = (Inr (JNum (Fin 153.75)),
        w\<lparr>requests := requests w
             @ (if amex_page w then [] else [BrowserLaunch, PageGoto AMEX_URL])
             @ [FrankfurterGet d ''USD,JPY'', AmexPost ''ICC''],
          clock_reads := Suc (clock_reads w),
          console := console w @
            [(''Mid'', mid_params d ''USD'' ''JPY'',
              frankfurter_body [(''USD'', 1.08), (''JPY'', 162), (''CHF'', 0.96)]),
             (''Amex'', amex_params d ''USD'' ''JPY'' ''ICC'' (Fin 1), icc_entries (JStr ''2.5''))],
          amex_cache := (amex_cache w)(d @ ''|USD|JPY''
                         \<mapsto> \<lparr>val = JNum (Fin 153.75), timestamp = t (clock_reads w)\<rparr>),
          amex_page := True\<rparr>)"
  by (cases "amex_page w")
     (simp_all add: getAmexRate_def getAmexRate_miss_def getAmexRateViaPlaywright_def
        ensureBrowser_amex_def getCacheKey_amex_def io_defs day_mid market_usd
        normalize_usd_jpy providers_http parse_2_5)

lemmas day = day_mid day_mc_ok day_mc_down day_visa_ok day_amex_ok

lemma iso_date_0229: "iso_date (19783 - 1) = ''2024-02-29''"
  by code_simp

lemma parse_amount_default: "parse_amount None = Fin 1"
  by (simp add: parse_amount_def absent_def parse_defs)

lemma query_valid:
  "date_format_ok ''2024-03-01''" "currency_format_ok ''USD''" "currency_format_ok ''JPY''"
  by (simp_all add: date_format_ok_def currency_format_ok_def is_digit_def is_upper_def)

lemma answering_today:
  "fst (lookups_of_day answering ''2024-03-01'' ''USD'' ''JPY'' (Fin 1) initial_world)
     = (Inr (JNum (Fin 150)), Inr (JNum (Fin 107.5)), Inr (JNum (Fin 1.09)), Inr (JNum (Fin 153.75)))"
  by (simp add: lookups_of_day_def answering_def day initial_world_def)

lemma answering_yesterday:
  "fst (lookups_of_day answering ''2024-02-29'' ''USD'' ''JPY'' (Fin 1)
          (snd (lookups_of_day answering ''2024-03-01'' ''USD'' ''JPY'' (Fin 1) initial_world)))
     = (Inr (JNum (Fin 150)), Inr (JNum (Fin 107.5)), Inr (JNum (Fin 1.09)), Inr (JNum (Fin 153.75)))"
  by (simp add: lookups_of_day_def answering_def day initial_world_def)

lemma down_today:
  "fst (lookups_of_day mastercard_down ''2024-03-01'' ''USD'' ''JPY'' (Fin 1) initial_world)
     = (Inr (JNum (Fin 150)), Inl (Error ''Failed to fetch Mastercard rate from API''),
        Inr (JNum (Fin 1.09)), Inr (JNum (Fin 153.75)))"
  by (simp add: lookups_of_day_def mastercard_down_def day initial_world_def)

lemma down_yesterday:
  "fst (lookups_of_day mastercard_down ''2024-02-29'' ''USD'' ''JPY'' (Fin 1)
          (snd (lookups_of_day mastercard_down ''2024-03-01'' ''USD'' ''JPY'' (Fin 1) initial_world)))
     = (Inr (JNum (Fin 150)), Inl (Error ''Failed to fetch Mastercard rate from API''),
        Inr (JNum (Fin 1.09)), Inr (JNum (Fin 153.75)))"
  by (simp add: lookups_of_day_def mastercard_down_def day initial_world_def)

lemma query_fields:
  "q_date dollar_yen_query = Some ''2024-03-01''" "q_base dollar_yen_query = Some ''USD''"
  "q_quote dollar_yen_query = Some ''JPY''" "parse_amount (q_amount dollar_yen_query) = Fin 1"
  by (simp_all add: dollar_yen_query_def parse_amount_default)

lemma query_day:
  "date_parse answering ''2024-03-01'' = Some 19783"
  "date_parse mastercard_down ''2024-03-01'' = Some 19783"
  by (simp_all add: answering_def mastercard_down_def providers_http iso_day_0301)

theorem aggregated_response_all_or_nothing_witness:
  "fst (lookups_of_day answering ''2024-03-01'' ''USD'' ''JPY'' (Fin 1) initial_world)
     = (Inr (JNum (Fin 150)), Inr (JNum (Fin 107.5)), Inr (JNum (Fin 1.09)), Inr (JNum (Fin 153.75)))
   \<and> fst (api_rates answering dollar_yen_query initial_world)
     = Response 200 (rates_body ''2024-03-01'' ''USD'' ''JPY'' (Fin 1)
         (JNum (Fin 150)) (JNum (Fin 107.5)) (JNum (Fin 1.09)) (JNum (Fin 153.75))
         (JNum (Fin 150)) (JNum (Fin 107.5)) (JNum (Fin 1.09)) (JNum (Fin 153.75)))
   \<and> get_prop (rates_body ''2024-03-01'' ''USD'' ''JPY'' (Fin 1)
         (JNum (Fin 150)) (JNum (Fin 107.5)) (JNum (Fin 1.09)) (JNum (Fin 153.75))
         (JNum (Fin 150)) (JNum (Fin 107.5)) (JNum (Fin 1.09)) (JNum (Fin 153.75))) ''visa''
     = Inr (JNum (Fin 1.09))
   \<and> fst (lookups_of_day mastercard_down ''2024-03-01'' ''USD'' ''JPY'' (Fin 1) initial_world)
     = (Inr (JNum (Fin 150)), Inl (Error ''Failed to fetch Mastercard rate from API''),
        Inr (JNum (Fin 1.09)), Inr (JNum (Fin 153.75)))
   \<and> fst (lookups_of_day mastercard_down ''2024-02-29'' ''USD'' ''JPY'' (Fin 1)
          (snd (lookups_of_day mastercard_down ''2024-03-01'' ''USD'' ''JPY'' (Fin 1) initial_world)))
     = (Inr (JNum (Fin 150)), Inl (Error ''Failed to fetch Mastercard rate from API''),
        Inr (JNum (Fin 1.09)), Inr (JNum (Fin 153.75)))
   \<and> fst (api_rates mastercard_down dollar_yen_query initial_world)
     = failed_to_fetch_rates (Error ''Failed to fetch Mastercard rate from API'')"
proof -
  let ?ok = "(Inr (JNum (Fin 150)), Inr (JNum (Fin 107.5)), Inr (JNum (Fin 1.09)),
              Inr (JNum (Fin 153.75))) :: (error + jsval) \<times> (error + jsval) \<times> (error + jsval) \<times> (error + jsval)"
  have y: "iso_date (19783 - 1) = ''2024-02-29''" by (rule iso_date_0229)
  have amount: "Fin 1 = parse_amount (q_amount dollar_yen_query)" by (simp add: query_fields)
  note up = aggregated_response_all_or_nothing[OF query_fields(1-3) query_valid query_day(1) amount
      answering_today answering_yesterday[folded y],
      where m = "JNum (Fin 150)" and c = "JNum (Fin 107.5)" and v = "JNum (Fin 1.09)"
        and a = "JNum (Fin 153.75)"]
  note down = aggregated_response_all_or_nothing[OF query_fields(1-3) query_valid query_day(2) amount
      down_today down_yesterday[folded y]]
  have r200: "fst (api_rates answering dollar_yen_query initial_world)
     = Response 200 (rates_body ''2024-03-01'' ''USD'' ''JPY'' (Fin 1)
         (JNum (Fin 150)) (JNum (Fin 107.5)) (JNum (Fin 1.09)) (JNum (Fin 153.75))
         (JNum (Fin 150)) (JNum (Fin 107.5)) (JNum (Fin 1.09)) (JNum (Fin 153.75)))"
    using up[THEN conjunct2, THEN conjunct2] by (simp add: catch_null_def)
  have visa: "get_prop (rates_body ''2024-03-01'' ''USD'' ''JPY'' (Fin 1)
         (JNum (Fin 150)) (JNum (Fin 107.5)) (JNum (Fin 1.09)) (JNum (Fin 153.75))
         (JNum (Fin 150)) (JNum (Fin 107.5)) (JNum (Fin 1.09)) (JNum (Fin 153.75))) ''visa''
     = Inr (JNum (Fin 1.09))"
    using up[THEN conjunct2, THEN conjunct2] by (simp add: catch_null_def)
  have r500: "fst (api_rates mastercard_down dollar_yen_query initial_world)
     = failed_to_fetch_rates (Error ''Failed to fetch Mastercard rate from API'')"
    using down[THEN conjunct2, THEN conjunct1] by simp
  from answering_today r200 visa down_today down_yesterday r500 show ?thesis by blast
qed

text \<open>
  C1 as the specification has it, on a request for the dollar against the yen when
  Mastercard answers with a server error and the three other providers answer: the
  reference, Visa and Amex lookups of the day return their rates, and the response is the
  500 of the Mastercard failure, with none of them.
\<close>

theorem one_provider_down_counterexample:
  "fst (lookups_of_day mastercard_down ''2024-03-01'' ''USD'' ''JPY'' (Fin 1) initial_world)
     = (Inr (JNum (Fin 150)), Inl (Error ''Failed to fetch Mastercard rate from API''),
        Inr (JNum (Fin 1.09)), Inr (JNum (Fin 153.75)))
   \<and> fst (api_rates mastercard_down dollar_yen_query initial_world)
     = Response 500 (JObj [(''error'', JStr ''Failed to fetch rates''),
                           (''details'', JStr ''Failed to fetch Mastercard rate from API'')])"
proof -
  have y: "iso_date (19783 - 1) = ''2024-02-29''" by (rule iso_date_0229)
  have amount: "parse_amount (q_amount dollar_yen_query) = Fin 1" by (simp add: query_fields)
  have "fst (api_rates mastercard_down dollar_yen_query initial_world)
          = failed_to_fetch_rates (Error ''Failed to fetch Mastercard rate from API'')"
    using api_rates_joined[OF query_fields(1-3) query_valid query_day(2),
        unfolded amount, OF down_today down_yesterday[folded y]]
    by (simp add: rates_join_def providers_http mastercard_down_def List.map_filter_simps
          rejection_def)
  then show ?thesis using down_today by (simp add: failed_to_fetch_rates_def)
qed

end
